theory Spec2Isabelle
  imports Complex_Main "HOL-Library.Sublist"
begin

section \<open>The EEG streaming demo: server (Flask, BrainFlow) and browser chart\<close>

text \<open>
  The program verified here is the application listed in the blog post
  \<^verbatim>\<open>2024-09-27-building-an-advanced-real-time-eeg-analysis-app-with-python-and-brainflow.md\<close>
  (the Python server \<^verbatim>\<open>app.py\<close>) together with its browser script (the \<^verbatim>\<open>update_data\<close>
  handler and \<^verbatim>\<open>createChart\<close>). Module-level globals of the server become the fields of one
  record that every handler takes and returns. What the hardware, the BrainFlow library and
  the clock do is an argument of the function that calls them.
\<close>

subsection \<open>Sample values\<close>

text \<open>
  A sample is a double. Finite doubles are idealised as reals (no rounding); \<open>NaN\<close> is
  numpy's nan, which \<^verbatim>\<open>np.mean\<close> returns for an empty slice and which \<open>0 / 0\<close> yields.
  Infinities are not represented: the only division of the program is by a standard
  deviation, and a standard deviation of zero forces every numerator to be zero as well.
\<close>

datatype fval = Num real | NaN

fun fsub :: "fval \<Rightarrow> fval \<Rightarrow> fval" where
  "fsub (Num a) (Num b) = Num (a - b)"
| "fsub _ _ = NaN"

fun fdiv :: "fval \<Rightarrow> fval \<Rightarrow> fval" where
  "fdiv (Num a) (Num b) = (if b = 0 then NaN else Num (a / b))"
| "fdiv _ _ = NaN"

fun fgt :: "fval \<Rightarrow> real \<Rightarrow> bool" where
  "fgt (Num a) t = (t < a)"
| "fgt NaN t = False"

fun reals :: "fval list \<Rightarrow> real list option" where
  "reals [] = Some []"
| "reals (NaN # xs) = None"
| "reals (Num a # xs) = map_option ((#) a) (reals xs)"

definition np_mean :: "fval list \<Rightarrow> fval" where
  "np_mean xs =
     (case reals xs of
        None \<Rightarrow> NaN
      | Some rs \<Rightarrow> if rs = [] then NaN else Num (sum_list rs / real (length rs)))"

definition np_std :: "fval list \<Rightarrow> fval" where
  "np_std xs =
     (case reals xs of
        None \<Rightarrow> NaN
      | Some rs \<Rightarrow>
          if rs = [] then NaN
          else (let m = sum_list rs / real (length rs)
                in Num (sqrt (sum_list (map (\<lambda>x. (x - m)\<^sup>2) rs) / real (length rs)))))"

subsection \<open>Server state\<close>

text \<open>
  The globals of \<^verbatim>\<open>app.py\<close> that the modelled functions read or write. Two fields record
  effects: \<open>threads\<close> counts the calls of \<^verbatim>\<open>threading.Thread(target=read_eeg_data_brainflow).start()\<close>,
  and \<open>emitted\<close> lists the payloads of the \<^verbatim>\<open>update_data\<close> events sent, oldest first.
  The handles \<^verbatim>\<open>spi\<close>, \<^verbatim>\<open>chip\<close> and \<^verbatim>\<open>line\<close> that \<^verbatim>\<open>cleanup_spi_gpio\<close> closes are not
  part of the state: no modelled function reads them.
\<close>

record server =
  running :: bool
  enabled_channels :: int
  bandpass_enabled :: bool
  baseline_correction_enabled :: bool
  lowcut :: real
  highcut :: real
  order :: int
  collected_data :: "fval list list"
  calibration_values :: "fval list"
  threads :: nat
  emitted :: "fval list list"

text \<open>The state in which \<^verbatim>\<open>socketio.run\<close> begins to serve when the file is run as a script.\<close>

definition initial_server :: "real \<Rightarrow> real \<Rightarrow> int \<Rightarrow> server" where
  "initial_server lo hi ord =
     \<lparr> running = False, enabled_channels = 8, bandpass_enabled = False,
       baseline_correction_enabled = False, lowcut = lo, highcut = hi, order = ord,
       collected_data = replicate 8 [], calibration_values = replicate 8 (Num 0),
       threads = 0, emitted = [] \<rparr>"

subsection \<open>\<^verbatim>\<open>start_analysis\<close>\<close>

text \<open>
  What a Flask view hands back: a JSON body with a status code, or nothing at all when the
  function ends without a \<^verbatim>\<open>return\<close> (Flask then answers with an internal error, not with
  a status message).
\<close>

datatype view_return = Json string nat | Returns_None

text \<open>
  \<^verbatim>\<open>check_gpio_conflicts()\<close> asks the operating system for GPIO line 26; its answer is the
  argument \<open>gpio_conflict\<close>. The flag is set before the check, and the branch that starts
  the thread has no \<^verbatim>\<open>return\<close>.
\<close>

definition start_analysis :: "bool \<Rightarrow> server \<Rightarrow> view_return \<times> server" where
  "start_analysis gpio_conflict s =
     (let s1 = s\<lparr>running := True\<rparr>
      in if gpio_conflict
         then (Json ''GPIO conflict detected. Please resolve before starting BrainFlow.'' 409, s1)
         else (Returns_None, s1\<lparr>threads := threads s1 + 1\<rparr>))"

subsection \<open>The board and the signal library\<close>

text \<open>
  \<^verbatim>\<open>BoardShim.get_eeg_channels\<close> and \<^verbatim>\<open>BoardShim.get_sampling_rate\<close> are constants of the
  board description. One call of \<^verbatim>\<open>board.get_current_board_data\<close> either raises or returns
  the board's data matrix, one row per board channel, all rows of one length.
\<close>

record board =
  eeg_channels :: "nat list"
  sampling_rate :: nat

datatype poll = Poll_Raises | Board_Data "fval list list"

text \<open>
  The calls into \<^verbatim>\<open>DataFilter\<close>, with the arguments the source passes: sampling rate,
  band edges, order, filter type and ripple. The library is outside the repository: its
  effect on a row is the argument \<open>dsp\<close> of the functions below, \<open>None\<close> when the call
  raises. A call that raises is taken to leave the row as it found it.
\<close>

datatype detrend_operations = CONSTANT

datatype filter_types = BUTTERWORTH_ZERO_PHASE

datatype filter_op =
    Detrend detrend_operations
  | Perform_Bandpass nat real real nat filter_types real
  | Perform_Bandstop nat real real nat filter_types real

type_synonym dsp = "filter_op \<Rightarrow> fval list \<Rightarrow> fval list option"

text \<open>The four calls made on one channel, in the order of the source lines.\<close>

definition filter_calls :: "nat \<Rightarrow> filter_op list" where
  "filter_calls rate =
     [ Detrend CONSTANT,
       Perform_Bandpass rate 3 45 2 BUTTERWORTH_ZERO_PHASE 0,
       Perform_Bandstop rate 48 52 2 BUTTERWORTH_ZERO_PHASE 0,
       Perform_Bandstop rate 58 62 2 BUTTERWORTH_ZERO_PHASE 0 ]"

text \<open>
  The body of the inner \<^verbatim>\<open>try\<close>: the calls run in order on the row, in place; the first
  one that raises ends the block, and the row keeps what the earlier calls wrote.
\<close>

fun apply_ops :: "dsp \<Rightarrow> filter_op list \<Rightarrow> fval list \<Rightarrow> fval list" where
  "apply_ops f [] row = row"
| "apply_ops f (c # cs) row =
     (case f c row of None \<Rightarrow> row | Some row' \<Rightarrow> apply_ops f cs row')"

text \<open>
  One pass of \<^verbatim>\<open>for channel in eeg_channels\<close>. The row is \<^verbatim>\<open>data_transposed[channel]\<close>:
  the loop variable is the board's channel number, used as a row index of the window. An
  index past the last row raises IndexError inside the \<^verbatim>\<open>try\<close>, which only logs it.
\<close>

definition filter_channel :: "dsp \<Rightarrow> nat \<Rightarrow> nat \<Rightarrow> fval list list \<Rightarrow> fval list list" where
  "filter_channel f rate channel w =
     (if channel < length w
      then w[channel := apply_ops f (filter_calls rate) (w ! channel)]
      else w)"

definition apply_filters :: "dsp \<Rightarrow> board \<Rightarrow> fval list list \<Rightarrow> fval list list" where
  "apply_filters f b w = fold (filter_channel f (sampling_rate b)) (eeg_channels b) w"

subsection \<open>One window through the loop body\<close>

text \<open>\<^verbatim>\<open>data[eeg_channels, :]\<close>: IndexError when a listed row does not exist.\<close>

definition select_rows :: "nat list \<Rightarrow> 'a list list \<Rightarrow> 'a list list option" where
  "select_rows chans d =
     (if list_all (\<lambda>c. c < length d) chans then Some (map (\<lambda>c. d ! c) chans) else None)"

text \<open>\<^verbatim>\<open>.size\<close> of a two-dimensional array: rows times columns.\<close>

definition np_size :: "'a list list \<Rightarrow> nat" where
  "np_size w = (case w of [] \<Rightarrow> 0 | r # _ \<Rightarrow> length w * length r)"

text \<open>
  \<^verbatim>\<open>for idx in range(len(eeg_channels)): data_transposed[idx] -= calibration_values[idx]\<close>.
  The window has one row per entry of \<^verbatim>\<open>eeg_channels\<close>; a calibration vector shorter than
  that raises IndexError, which is not inside the inner \<^verbatim>\<open>try\<close>.
\<close>

definition baseline_correct :: "fval list \<Rightarrow> fval list list \<Rightarrow> fval list list option" where
  "baseline_correct cal w =
     (if length w \<le> length cal
      then Some (map (\<lambda>(row, c). map (\<lambda>x. fsub x c) row) (zip w cal))
      else None)"

text \<open>
  The reference channel is row 0. When its mean exceeds 1000 the row is replaced by
  \<^verbatim>\<open>(ref_values - ref_mean) / ref_std\<close>.
\<close>

definition normalize_ref :: "fval list list \<Rightarrow> fval list list option" where
  "normalize_ref w =
     (case w of
        [] \<Rightarrow> None
      | ref_values # rest \<Rightarrow>
          (let ref_mean = np_mean ref_values; ref_std = np_std ref_values
           in if fgt ref_mean 1000
              then Some (map (\<lambda>x. fdiv (fsub x ref_mean) ref_std) ref_values # rest)
              else Some w))"

text \<open>Filters, baseline correction and normalisation, as the loop body chains them.\<close>

definition process_window :: "dsp \<Rightarrow> board \<Rightarrow> server \<Rightarrow> fval list list \<Rightarrow> fval list list option" where
  "process_window f b s w =
     (let w1 = (if bandpass_enabled s then apply_filters f b w else w)
      in case (if baseline_correction_enabled s
               then baseline_correct (calibration_values s) w1 else Some w1) of
           None \<Rightarrow> None
         | Some w2 \<Rightarrow> normalize_ref w2)"

text \<open>
  \<^verbatim>\<open>for idx, channel_data in enumerate(rows): acc[idx].extend(channel_data)\<close>, used by the
  loop on \<^verbatim>\<open>collected_data\<close> and by the calibration on \<^verbatim>\<open>calibration_data\<close>. IndexError
  when there are more rows than accumulators.
\<close>

fun extend_rows :: "'a list list \<Rightarrow> 'a list list \<Rightarrow> 'a list list option" where
  "extend_rows acc [] = Some acc"
| "extend_rows [] (r # rs) = None"
| "extend_rows (a # acc) (r # rs) = map_option ((#) (a @ r)) (extend_rows acc rs)"

text \<open>\<^verbatim>\<open>[channel[0] for channel in data_transposed]\<close>: IndexError on an empty row.\<close>

fun first_samples :: "'a list list \<Rightarrow> 'a list option" where
  "first_samples [] = Some []"
| "first_samples ([] # rs) = None"
| "first_samples ((x # xs) # rs) = map_option ((#) x) (first_samples rs)"

subsection \<open>\<^verbatim>\<open>read_eeg_data_brainflow\<close>\<close>

text \<open>
  One pass of the \<^verbatim>\<open>while running\<close> body. \<open>Continue\<close>: control returns to the loop test
  (also through \<^verbatim>\<open>continue\<close>). \<open>Exit\<close>: an exception reached one of the two handlers
  that enclose the whole function, so the function ends; the state is what the globals
  held at that moment. \<^verbatim>\<open>collected_data\<close> is rebound to fresh empty lists in every pass
  that gets that far; that the extension of fresh lists cannot fail is
  \<open>extend_rows_fresh\<close> below.
\<close>

datatype 's step = Continue 's | Exit 's

fun state_of :: "'s step \<Rightarrow> 's" where
  "state_of (Continue s) = s"
| "state_of (Exit s) = s"

definition loop_iteration :: "dsp \<Rightarrow> board \<Rightarrow> poll \<Rightarrow> server \<Rightarrow> server step" where
  "loop_iteration f b p s =
     (case p of
        Poll_Raises \<Rightarrow> Exit s
      | Board_Data d \<Rightarrow>
          (case select_rows (eeg_channels b) d of
             None \<Rightarrow> Exit s
           | Some data_transposed \<Rightarrow>
               if np_size data_transposed = 0 then Continue s
               else
                 (case process_window f b s data_transposed of
                    None \<Rightarrow> Exit s
                  | Some w \<Rightarrow>
                      (case extend_rows (replicate (length (eeg_channels b)) []) w of
                         None \<Rightarrow> Exit (s\<lparr>collected_data := replicate (length (eeg_channels b)) []\<rparr>)
                       | Some cd \<Rightarrow>
                           (case first_samples w of
                              None \<Rightarrow> Exit (s\<lparr>collected_data := cd\<rparr>)
                            | Some raw \<Rightarrow>
                                Continue (s\<lparr>collected_data := cd,
                                            emitted := emitted s @ [raw]\<rparr>))))))"

text \<open>
  How the function ended, for a given list of answers of the board to the successive
  polls. \<open>Left_Loop\<close>: the loop test found \<open>running\<close> false, the stream was stopped and the
  session released. \<open>Error_Logged\<close>: an \<^verbatim>\<open>except\<close> clause of the function logged an
  exception; nothing is stopped or released on that path. \<open>In_Loop\<close>: the answers given
  are used up and the loop test still holds.
\<close>

datatype loop_end = Left_Loop | Error_Logged | In_Loop

fun read_loop :: "dsp \<Rightarrow> board \<Rightarrow> poll list \<Rightarrow> server \<Rightarrow> loop_end \<times> server" where
  "read_loop f b [] s = (if running s then (In_Loop, s) else (Left_Loop, s))"
| "read_loop f b (p # ps) s =
     (if \<not> running s then (Left_Loop, s)
      else (case loop_iteration f b p s of
              Continue s' \<Rightarrow> read_loop f b ps s'
            | Exit s' \<Rightarrow> (Error_Logged, s')))"

text \<open>
  \<open>setup_ok\<close> tells whether \<^verbatim>\<open>BoardShim(...)\<close>, \<^verbatim>\<open>prepare_session()\<close> and
  \<^verbatim>\<open>start_stream(45000, '')\<close> all returned.
\<close>

definition read_eeg_data_brainflow ::
    "dsp \<Rightarrow> board \<Rightarrow> bool \<Rightarrow> poll list \<Rightarrow> server \<Rightarrow> loop_end \<times> server" where
  "read_eeg_data_brainflow f b setup_ok polls s =
     (if setup_ok then read_loop f b polls s else (Error_Logged, s))"

subsection \<open>\<^verbatim>\<open>calibrate\<close>\<close>

text \<open>\<^verbatim>\<open>[[] for _ in range(n)]\<close> for a Python int \<open>n\<close>: empty when \<open>n\<close> is not positive.\<close>

definition empty_lists :: "int \<Rightarrow> 'a list list" where
  "empty_lists n = replicate (nat n) []"

text \<open>
  The sampling loop of the calibration, over the answers of the board to the polls made
  within the five seconds. It returns the accumulated \<^verbatim>\<open>calibration_data\<close>, or \<open>None\<close>
  when a poll, the row selection or the accumulation raised.
\<close>

fun calibration_loop :: "board \<Rightarrow> poll list \<Rightarrow> fval list list \<Rightarrow> fval list list option" where
  "calibration_loop b [] calibration_data = Some calibration_data"
| "calibration_loop b (Poll_Raises # ps) calibration_data = None"
| "calibration_loop b (Board_Data d # ps) calibration_data =
     (case select_rows (eeg_channels b) d of
        None \<Rightarrow> None
      | Some data_transposed \<Rightarrow>
          if np_size data_transposed = 0 then calibration_loop b ps calibration_data
          else (case extend_rows calibration_data data_transposed of
                  None \<Rightarrow> None
                | Some calibration_data' \<Rightarrow> calibration_loop b ps calibration_data'))"

text \<open>
  \<^verbatim>\<open>calibrate\<close> returns nothing; what it leaves behind is the state and its log lines,
  listed here in the order they are written. The global is assigned once, after the
  sampling loop, and not at all when an exception was raised before that line.
  \<^verbatim>\<open>stop_stream\<close> and \<^verbatim>\<open>release_session\<close> come after the assignment, inside the same
  \<^verbatim>\<open>try\<close>: \<open>teardown_ok\<close> tells whether both returned, and when one raises, the error is
  logged with the vector already overwritten.
\<close>

datatype calibration_log = Calibration_Values "fval list" | Calibration_Error

definition calibrate ::
    "board \<Rightarrow> bool \<Rightarrow> poll list \<Rightarrow> bool \<Rightarrow> server \<Rightarrow> calibration_log list \<times> server" where
  "calibrate b setup_ok polls teardown_ok s =
     (if \<not> setup_ok then ([Calibration_Error], s)
      else (case calibration_loop b polls (empty_lists (enabled_channels s)) of
              None \<Rightarrow> ([Calibration_Error], s)
            | Some calibration_data \<Rightarrow>
                (Calibration_Values (map np_mean calibration_data)
                   # (if teardown_ok then [] else [Calibration_Error]),
                 s\<lparr>calibration_values := map np_mean calibration_data\<rparr>)))"

subsection \<open>\<^verbatim>\<open>update_settings\<close>\<close>

text \<open>
  The JSON body of the request: each key is present or not. A value that is present is
  taken to be of the type that \<^verbatim>\<open>float\<close> or \<^verbatim>\<open>int\<close> returns unchanged. The globals that the
  listing reads as defaults without initialising them (\<^verbatim>\<open>lowcut\<close>, \<^verbatim>\<open>highcut\<close>,
  \<^verbatim>\<open>order\<close>, \<^verbatim>\<open>smoothing_enabled\<close>) are taken to be defined; \<^verbatim>\<open>ref_enabled\<close>,
  \<^verbatim>\<open>biasout_enabled\<close> and \<^verbatim>\<open>smoothing_enabled\<close> are assigned too, and read by no
  modelled function.
\<close>

record settings_update =
  new_lowcut :: "real option"
  new_highcut :: "real option"
  new_order :: "int option"
  new_baseline_correction_enabled :: "bool option"
  new_enabled_channels :: "int option"
  new_bandpass_filter_enabled :: "bool option"

definition get_or :: "'a option \<Rightarrow> 'a \<Rightarrow> 'a" where
  "get_or v dflt = (case v of None \<Rightarrow> dflt | Some x \<Rightarrow> x)"

definition update_settings :: "settings_update \<Rightarrow> server \<Rightarrow> view_return \<times> server" where
  "update_settings u s =
     (Json ''Settings updated'' 200,
      s\<lparr> lowcut := get_or (new_lowcut u) (lowcut s),
         highcut := get_or (new_highcut u) (highcut s),
         order := get_or (new_order u) (order s),
         baseline_correction_enabled :=
           get_or (new_baseline_correction_enabled u) (baseline_correction_enabled s),
         enabled_channels := get_or (new_enabled_channels u) (enabled_channels s),
         bandpass_enabled := get_or (new_bandpass_filter_enabled u) (bandpass_enabled s) \<rparr>)"

subsection \<open>\<^verbatim>\<open>create_csv\<close> and \<^verbatim>\<open>export_data\<close>\<close>

text \<open>\<^verbatim>\<open>str(n)\<close> for a natural number: its decimal digits.\<close>

fun str_nat :: "nat \<Rightarrow> string" where
  "str_nat n =
     (if n < 10 then [''0123456789'' ! n]
      else str_nat (n div 10) @ [''0123456789'' ! (n mod 10)])"

declare str_nat.simps [simp del]

text \<open>\<^verbatim>\<open>zip(*data)\<close>: the rows of the transposition, as many as the shortest list has entries.\<close>

fun min_len :: "'a list list \<Rightarrow> nat" where
  "min_len [] = 0"
| "min_len [r] = length r"
| "min_len (r # r' # rs) = min (length r) (min_len (r' # rs))"

definition py_zip_star :: "'a list list \<Rightarrow> 'a list list" where
  "py_zip_star d = map (\<lambda>i. map (\<lambda>ch. ch ! i) d) [0..<min_len d]"

text \<open>
  The CSV text is kept as its rows of cells, in the order \<^verbatim>\<open>writerow\<close> writes them: the
  header first, then one row per sample.
\<close>

datatype cell = Text string | Number fval

definition header_row :: "nat \<Rightarrow> cell list" where
  "header_row n = map (\<lambda>i. Text (''Channel'' @ str_nat (i + 1))) [0..<n]"

definition create_csv :: "fval list list \<Rightarrow> cell list list" where
  "create_csv d = header_row (length d) # map (map Number) (py_zip_star d)"

text \<open>\<^verbatim>\<open>ch[:n]\<close> for a Python int \<open>n\<close>: a negative \<open>n\<close> drops that many entries from the end.\<close>

definition py_slice_to :: "int \<Rightarrow> 'a list \<Rightarrow> 'a list" where
  "py_slice_to n xs = (if n < 0 then take (length xs - nat (- n)) xs else take (nat n) xs)"

text \<open>
  The query argument \<^verbatim>\<open>num_rows\<close>: missing, a text that \<^verbatim>\<open>int()\<close> reads as a number, or a
  text on which \<^verbatim>\<open>int()\<close> raises ValueError.
\<close>

datatype query_arg = Absent | Int_Text int | Bad_Text

datatype export_return = Csv_Attachment "cell list list" | Internal_Server_Error

definition export_data :: "query_arg \<Rightarrow> server \<Rightarrow> export_return" where
  "export_data arg s =
     (case (case arg of Absent \<Rightarrow> Some 5000 | Int_Text n \<Rightarrow> Some n | Bad_Text \<Rightarrow> None) of
        None \<Rightarrow> Internal_Server_Error
      | Some n \<Rightarrow>
          (case collected_data s of
             [] \<Rightarrow> Internal_Server_Error
           | ch0 # _ \<Rightarrow>
               (let num_rows = (if n > int (length ch0) then int (length ch0) else n)
                in Csv_Attachment (create_csv (map (py_slice_to num_rows) (collected_data s))))))"

subsection \<open>The browser chart\<close>

text \<open>
  The chart of the browser script: the shared \<^verbatim>\<open>labels\<close> array and one dataset per
  series. A point is \<^verbatim>\<open>{x, y}\<close>; \<open>x\<close> and the labels are readings of \<^verbatim>\<open>Date.now()\<close>.
  The script does not look into the values it plots, so their type is left open.
\<close>

record 'v dataset =
  label :: string
  data :: "(nat \<times> 'v) list"
  borderColor :: "string option"
  fill :: bool

record 'v chart =
  labels :: "nat list"
  datasets :: "'v dataset list"

definition colors :: "(string \<times> string) list" where
  "colors =
     [ (''ref'', ''red''), (''biasout'', ''black''), (''ch1'', ''yellow''), (''ch2'', ''orange''),
       (''ch3'', ''brown''), (''ch4'', ''green''), (''ch5'', ''purple''), (''ch6'', ''blue''),
       (''ch7'', ''grey''), (''ch8'', ''white'') ]"

text \<open>
  \<^verbatim>\<open>createChart\<close>, from the three form controls. \<^verbatim>\<open>parseInt\<close> gives a number or NaN
  (\<open>None\<close>), and \<^verbatim>\<open>i < NaN\<close> never holds.
\<close>

definition createChart :: "int option \<Rightarrow> bool \<Rightarrow> bool \<Rightarrow> 'v chart" where
  "createChart enabledChannels ref_checked biasout_checked =
     \<lparr> labels = [],
       datasets =
         (if ref_checked
          then [\<lparr>label = ''REF'', data = [], borderColor = map_of colors ''ref'', fill = False\<rparr>]
          else [])
         @ (if biasout_checked
            then [\<lparr>label = ''BIASOUT'', data = [], borderColor = map_of colors ''biasout'',
                   fill = False\<rparr>]
            else [])
         @ map (\<lambda>i. \<lparr>label = ''Ch'' @ str_nat (i + 1), data = [],
                      borderColor = map_of colors (''ch'' @ str_nat (i + 1)), fill = False\<rparr>)
             [0..<(case enabledChannels of None \<Rightarrow> 0 | Some n \<Rightarrow> nat n)] \<rparr>"

text \<open>\<^verbatim>\<open>Array.prototype.shift\<close>: removes the first element; nothing happens on an empty array.\<close>

definition shift :: "'a list \<Rightarrow> 'a list" where
  "shift xs = (case xs of [] \<Rightarrow> [] | _ # rest \<Rightarrow> rest)"

text \<open>
  The \<^verbatim>\<open>update_data\<close> handler. \<open>now\<close> is the clock reading pushed as label, \<open>now_at index\<close>
  the reading taken for the point of the dataset at \<open>index\<close>, and \<open>raw\<close> the \<^verbatim>\<open>raw\<close> field
  of the message (\<open>None\<close> when the message has none).
\<close>

definition update_data :: "nat \<Rightarrow> (nat \<Rightarrow> nat) \<Rightarrow> 'v list option \<Rightarrow> 'v chart \<Rightarrow> 'v chart" where
  "update_data now now_at raw c =
     (let c1 = (if length (labels c) > 100
                then c\<lparr>labels := shift (labels c),
                       datasets := map (\<lambda>d. d\<lparr>data := shift (data d)\<rparr>) (datasets c)\<rparr>
                else c);
          c2 = c1\<lparr>labels := labels c1 @ [now]\<rparr>
      in c2\<lparr>datasets :=
              map (\<lambda>(index, d).
                     case raw of
                       None \<Rightarrow> d
                     | Some r \<Rightarrow>
                         if length r > index
                         then d\<lparr>data := data d @ [(now_at index, r ! index)]\<rparr>
                         else d)
                  (enumerate 0 (datasets c2))\<rparr>)"

text \<open>A message as the handler sees it, and the chart after a sequence of messages.\<close>

type_synonym 'v message = "nat \<times> (nat \<Rightarrow> nat) \<times> 'v list option"

definition receive :: "'v message \<Rightarrow> 'v chart \<Rightarrow> 'v chart" where
  "receive m c = (case m of (now, now_at, raw) \<Rightarrow> update_data now now_at raw c)"

definition receive_all :: "'v message list \<Rightarrow> 'v chart \<Rightarrow> 'v chart" where
  "receive_all ms c = fold receive ms c"

text \<open>The point that a message appends to the series at \<open>index\<close>, if any.\<close>

definition pushed :: "nat \<Rightarrow> 'v message \<Rightarrow> (nat \<times> 'v) list" where
  "pushed index m =
     (case m of (now, now_at, raw) \<Rightarrow>
        (case raw of
           None \<Rightarrow> []
         | Some r \<Rightarrow> if length r > index then [(now_at index, r ! index)] else []))"

subsection \<open>Auxiliary notions and example inputs\<close>


text \<open>A poll is answered when it returns a matrix that has every EEG row of the board.\<close>

definition answered :: "board \<Rightarrow> poll \<Rightarrow> bool" where
  "answered b p =
     (case p of
        Poll_Raises \<Rightarrow> False
      | Board_Data d \<Rightarrow> select_rows (eeg_channels b) d \<noteq> None)"

text \<open>
  The calls on one channel as the specification words them, with the band-pass in the
  configured band. Only the comparison with \<open>filter_calls\<close> uses this definition.
\<close>

definition configured_filter_calls :: "server \<Rightarrow> nat \<Rightarrow> filter_op list" where
  "configured_filter_calls s rate =
     [ Detrend CONSTANT,
       Perform_Bandpass rate (lowcut s) (highcut s) (nat (order s)) BUTTERWORTH_ZERO_PHASE 0,
       Perform_Bandstop rate 48 52 2 BUTTERWORTH_ZERO_PHASE 0,
       Perform_Bandstop rate 58 62 2 BUTTERWORTH_ZERO_PHASE 0 ]"

text \<open>
  The bounded window of the chart: at most 101 labels, and no series longer than the
  label array.
\<close>

definition window_ok :: "'v chart \<Rightarrow> bool" where
  "window_ok c =
     (length (labels c) \<le> 101
      \<and> (\<forall>i<length (datasets c). length (data (datasets c ! i)) \<le> length (labels c)))"

text \<open>
  Example inputs: a board with two EEG channels in rows 0 and 1 and one with a single
  channel in row 0; a signal library whose calls all raise, and a stand-in whose calls
  are arithmetic maps that do not commute (detrending removes the mean, the band-pass
  subtracts its lower edge, a notch subtracts its lower edge and divides by its width);
  a message carrying one value, and the chart of one series.
\<close>

definition example_board :: board where
  "example_board = \<lparr> eeg_channels = [0, 1], sampling_rate = 250 \<rparr>"

definition one_channel_board :: board where
  "one_channel_board = \<lparr> eeg_channels = [0], sampling_rate = 250 \<rparr>"

definition no_dsp :: dsp where
  "no_dsp c row = None"

definition example_dsp :: dsp where
  "example_dsp c row =
     (case c of
        Detrend _ \<Rightarrow> Some (map (\<lambda>x. fsub x (np_mean row)) row)
      | Perform_Bandpass _ lo hi _ _ _ \<Rightarrow> Some (map (\<lambda>x. fsub x (Num lo)) row)
      | Perform_Bandstop _ lo hi _ _ _ \<Rightarrow>
          Some (map (\<lambda>x. fdiv (fsub x (Num lo)) (Num (hi - lo))) row))"

definition tick :: "int message" where
  "tick = (0, (\<lambda>index. 0), Some [7])"

definition one_series_chart :: "int chart" where
  "one_series_chart = createChart (Some 1) False False"

text \<open>
  Two later messages that carry values for two series, and the chart of two series.
\<close>

definition tick_a :: "int message" where
  "tick_a = (1, (\<lambda>index. 1), Some [7, 8])"

definition tick_b :: "int message" where
  "tick_b = (2, (\<lambda>index. 2), Some [7, 8])"

definition two_series_chart :: "int chart" where
  "two_series_chart = createChart (Some 2) False False"

section \<open>Properties of \<^verbatim>\<open>start_analysis\<close>\<close>

text \<open>
  C1 (as amended). A start request issued while the stream is already running leaves the
  \<open>running\<close> flag set, and it is not a no-op: unless a GPIO conflict is detected it starts one
  more acquisition thread.
\<close>

theorem start_while_running:
  assumes "running s"
  shows "running (snd (start_analysis gpio_conflict s))
       \<and> threads (snd (start_analysis gpio_conflict s))
           = threads s + (if gpio_conflict then 0 else 1)"
  using assms by (simp add: start_analysis_def Let_def)

theorem start_while_running_witness:
  "running (snd (start_analysis False (initial_server 3 45 2)))
   \<and> running (snd (start_analysis True (snd (start_analysis False (initial_server 3 45 2)))))
   \<and> threads (snd (start_analysis True (snd (start_analysis False (initial_server 3 45 2))))) = 1"
proof -
  have r: "running (snd (start_analysis False (initial_server 3 45 2)))"
    by (simp add: start_analysis_def Let_def)
  show ?thesis
    using r start_while_running [OF r, of True]
    by (simp add: start_analysis_def initial_server_def Let_def)
qed

text \<open>
  C1 as stated fails: a start on the idle server, without GPIO conflict, leaves it running
  with one thread started; a second start, again without conflict, changes the state and
  leaves two threads started.
\<close>

theorem start_while_running_counterexample:
  "running (snd (start_analysis False (initial_server 3 45 2)))
   \<and> threads (snd (start_analysis False (initial_server 3 45 2))) = 1
   \<and> snd (start_analysis False (snd (start_analysis False (initial_server 3 45 2))))
       \<noteq> snd (start_analysis False (initial_server 3 45 2))
   \<and> threads (snd (start_analysis False (snd (start_analysis False (initial_server 3 45 2))))) = 2"
  by (simp add: start_analysis_def initial_server_def Let_def)

text \<open>
  C2. The code at the two inputs where it departs from the claim: an idle server without a
  GPIO conflict starts the thread and switches to running but returns no response, and an
  idle server with a conflict answers 409 yet is left with \<open>running\<close> set.
\<close>

theorem start_idle_returns_nothing:
  "start_analysis False (initial_server 3 45 2)
     = (Returns_None, initial_server 3 45 2\<lparr>running := True, threads := 1\<rparr>)
   \<and> fst (start_analysis True (initial_server 3 45 2))
     = Json ''GPIO conflict detected. Please resolve before starting BrainFlow.'' 409
   \<and> running (snd (start_analysis True (initial_server 3 45 2)))
   \<and> \<not> running (initial_server 3 45 2)"
  by (simp add: start_analysis_def initial_server_def Let_def)

section \<open>Shapes of the windows\<close>

lemma extend_rows_fresh: "extend_rows (replicate (length w) []) w = Some w"
  by (induction w) simp_all

lemma extend_rows_length: "extend_rows acc w = Some acc' \<Longrightarrow> length acc' = length acc"
  by (induction acc w arbitrary: acc' rule: extend_rows.induct) auto


lemma select_rows_length: "select_rows chans d = Some w \<Longrightarrow> length w = length chans"
  by (auto simp: select_rows_def split: if_splits)

lemma np_size_nonempty: "np_size w \<noteq> 0 \<Longrightarrow> w \<noteq> []"
  by (auto simp: np_size_def)

lemma filter_channel_length: "length (filter_channel f rate c w) = length w"
  by (simp add: filter_channel_def)

lemma fold_filter_channel_length: "length (fold (filter_channel f rate) cs w) = length w"
  by (induction cs arbitrary: w) (simp_all add: filter_channel_length)

lemma apply_filters_length: "length (apply_filters f b w) = length w"
  by (simp add: apply_filters_def fold_filter_channel_length)

lemma baseline_correct_length: "baseline_correct cal w = Some w' \<Longrightarrow> length w' = length w"
  by (auto simp: baseline_correct_def split: if_splits)

lemma normalize_ref_length: "normalize_ref w = Some w' \<Longrightarrow> length w' = length w"
  by (auto simp: normalize_ref_def Let_def split: list.splits if_splits)

lemma process_window_length:
  "process_window f b s w = Some w' \<Longrightarrow> length w' = length w"
  unfolding process_window_def Let_def
  by (cases "bandpass_enabled s"; cases "baseline_correction_enabled s")
     (auto split: option.splits dest!: baseline_correct_length normalize_ref_length
        simp: apply_filters_length)

lemma first_samples_Some: "first_samples w = Some raw \<Longrightarrow> raw = map hd w \<and> [] \<notin> set w"
  by (induction w arbitrary: raw rule: first_samples.induct) auto

lemma first_samples_None: "first_samples w = None \<Longrightarrow> [] \<in> set w"
  by (induction w rule: first_samples.induct) auto

section \<open>Properties of \<^verbatim>\<open>calibrate\<close>\<close>

lemma extend_rows_long:
  "length w \<le> length acc \<Longrightarrow> \<exists>acc'. extend_rows acc w = Some acc'"
  by (induction acc w rule: extend_rows.induct) auto

lemma calibration_loop_answered:
  assumes "list_all (answered b) polls" and "length (eeg_channels b) \<le> length acc"
  shows "\<exists>cd. calibration_loop b polls acc = Some cd \<and> length cd = length acc"
  using assms
proof (induction b polls acc rule: calibration_loop.induct)
  case (1 b calibration_data)
  then show ?case by simp
next
  case (2 b ps calibration_data)
  then show ?case by (simp add: answered_def)
next
  case (3 b d ps calibration_data)
  from 3(3) have here: "answered b (Board_Data d)" and rest: "list_all (answered b) ps"
    by simp_all
  from here obtain w where sel: "select_rows (eeg_channels b) d = Some w"
    by (auto simp: answered_def)
  show ?case
  proof (cases "np_size w = 0")
    case True
    with sel rest 3 show ?thesis by simp
  next
    case False
    from sel 3(4) have "length w \<le> length calibration_data"
      by (simp add: select_rows_length)
    then obtain acc' where ext: "extend_rows calibration_data w = Some acc'"
      using extend_rows_long by blast
    then have len: "length acc' = length calibration_data"
      by (rule extend_rows_length)
    with 3(4) have "length (eeg_channels b) \<le> length acc'" by simp
    with 3(2) [OF sel False ext rest]
    have "\<exists>cd. calibration_loop b ps acc' = Some cd \<and> length cd = length acc'" by simp
    with sel False ext len show ?thesis by simp
  qed
qed

text \<open>
  C3 (as amended). \<^verbatim>\<open>calibrate\<close> does not test the stream state: a call made while the
  stream is running does what the same call does on an idle server. A call whose first
  log line is the error (session setup, a poll, the row selection or the accumulation
  raised) leaves the whole state, the calibration vector included, as it was. A call that
  logs calibration values has stored exactly those values, whether or not the teardown
  raises afterwards. On a running server whose session setup succeeds, whose polls are all
  answered and whose enabled-channels setting is at least the number of EEG channels, the
  call overwrites the vector with the means of the accumulated rows, one per enabled
  channel.
\<close>

theorem calibrate_ignores_running:
  "calibrate b setup_ok polls teardown_ok (s\<lparr>running := r\<rparr>)
     = (fst (calibrate b setup_ok polls teardown_ok s),
        (snd (calibrate b setup_ok polls teardown_ok s))\<lparr>running := r\<rparr>)
   \<and> (hd (fst (calibrate b setup_ok polls teardown_ok s)) = Calibration_Error
        \<longrightarrow> snd (calibrate b setup_ok polls teardown_ok s) = s)
   \<and> (\<forall>v. Calibration_Values v \<in> set (fst (calibrate b setup_ok polls teardown_ok s))
        \<longrightarrow> calibration_values (snd (calibrate b setup_ok polls teardown_ok s)) = v)
   \<and> (setup_ok \<and> list_all (answered b) polls
        \<and> int (length (eeg_channels b)) \<le> enabled_channels s
        \<longrightarrow> (\<exists>cd. calibration_loop b polls (empty_lists (enabled_channels s)) = Some cd
                  \<and> length cd = nat (enabled_channels s)
                  \<and> calibrate b setup_ok polls teardown_ok (s\<lparr>running := True\<rparr>)
                      = (Calibration_Values (map np_mean cd)
                           # (if teardown_ok then [] else [Calibration_Error]),
                         s\<lparr>running := True, calibration_values := map np_mean cd\<rparr>)))"
proof (intro conjI impI allI)
  show "calibrate b setup_ok polls teardown_ok (s\<lparr>running := r\<rparr>)
     = (fst (calibrate b setup_ok polls teardown_ok s),
        (snd (calibrate b setup_ok polls teardown_ok s))\<lparr>running := r\<rparr>)"
    by (simp add: calibrate_def split: option.splits)
next
  assume "hd (fst (calibrate b setup_ok polls teardown_ok s)) = Calibration_Error"
  then show "snd (calibrate b setup_ok polls teardown_ok s) = s"
    by (simp add: calibrate_def split: option.splits if_splits)
next
  fix v
  assume "Calibration_Values v \<in> set (fst (calibrate b setup_ok polls teardown_ok s))"
  then show "calibration_values (snd (calibrate b setup_ok polls teardown_ok s)) = v"
    by (auto simp: calibrate_def split: option.splits if_splits)
next
  assume a: "setup_ok \<and> list_all (answered b) polls
        \<and> int (length (eeg_channels b)) \<le> enabled_channels s"
  then have "length (eeg_channels b) \<le> length (empty_lists (enabled_channels s) :: fval list list)"
    by (auto simp: empty_lists_def)
  with a obtain cd where
    cd: "calibration_loop b polls (empty_lists (enabled_channels s)) = Some cd"
    and len: "length cd = length (empty_lists (enabled_channels s) :: fval list list)"
    using calibration_loop_answered [of b polls "empty_lists (enabled_channels s)"] by blast
  from len have "length cd = nat (enabled_channels s)"
    by (simp add: empty_lists_def)
  with a cd show "\<exists>cd. calibration_loop b polls (empty_lists (enabled_channels s)) = Some cd
                  \<and> length cd = nat (enabled_channels s)
                  \<and> calibrate b setup_ok polls teardown_ok (s\<lparr>running := True\<rparr>)
                      = (Calibration_Values (map np_mean cd)
                           # (if teardown_ok then [] else [Calibration_Error]),
                         s\<lparr>running := True, calibration_values := map np_mean cd\<rparr>)"
    by (simp add: calibrate_def)
qed

theorem calibrate_ignores_running_witness:
  "list_all (answered example_board) [Board_Data [[Num 2, Num 4], [Num 6, Num 8]]]
   \<and> int (length (eeg_channels example_board)) \<le> enabled_channels (initial_server 3 45 2)
   \<and> calibration_loop example_board [Board_Data [[Num 2, Num 4], [Num 6, Num 8]]]
        (empty_lists (enabled_channels (initial_server 3 45 2)))
       = Some [[Num 2, Num 4], [Num 6, Num 8], [], [], [], [], [], []]
   \<and> calibrate example_board True [Board_Data [[Num 2, Num 4], [Num 6, Num 8]]] False
        (initial_server 3 45 2\<lparr>running := True\<rparr>)
       = ([Calibration_Values [Num 3, Num 7, NaN, NaN, NaN, NaN, NaN, NaN], Calibration_Error],
          initial_server 3 45 2\<lparr>running := True,
            calibration_values := [Num 3, Num 7, NaN, NaN, NaN, NaN, NaN, NaN]\<rparr>)
   \<and> hd (fst (calibrate example_board False [] True (initial_server 3 45 2))) = Calibration_Error
   \<and> snd (calibrate example_board False [] True (initial_server 3 45 2)) = initial_server 3 45 2"
proof -
  let ?polls = "[Board_Data [[Num 2, Num 4], [Num 6, Num 8]]]"
  let ?s = "initial_server 3 45 2"
  have a: "list_all (answered example_board) ?polls"
    by (simp add: answered_def example_board_def select_rows_def)
  have b: "int (length (eeg_channels example_board)) \<le> enabled_channels ?s"
    by (simp add: example_board_def initial_server_def)
  have c: "calibration_loop example_board ?polls (empty_lists (enabled_channels ?s))
             = Some [[Num 2, Num 4], [Num 6, Num 8], [], [], [], [], [], []]"
    by (simp add: initial_server_def example_board_def empty_lists_def select_rows_def
        np_size_def eval_nat_numeral)
  have m: "map np_mean [[Num 2, Num 4], [Num 6, Num 8], [], [], [], [], [], []]
             = [Num 3, Num 7, NaN, NaN, NaN, NaN, NaN, NaN]"
    by (simp add: np_mean_def)
  have e: "hd (fst (calibrate example_board False [] True ?s)) = Calibration_Error"
    by (simp add: calibrate_def)
  from calibrate_ignores_running [of example_board True ?polls False True ?s] a b
  obtain cd where
    cd: "calibration_loop example_board ?polls (empty_lists (enabled_channels ?s)) = Some cd"
    and run: "calibrate example_board True ?polls False (?s\<lparr>running := True\<rparr>)
       = (Calibration_Values (map np_mean cd) # (if False then [] else [Calibration_Error]),
          ?s\<lparr>running := True, calibration_values := map np_mean cd\<rparr>)"
    by blast
  from cd c have "cd = [[Num 2, Num 4], [Num 6, Num 8], [], [], [], [], [], []]"
    by simp
  with run m
  have "calibrate example_board True ?polls False (?s\<lparr>running := True\<rparr>)
       = ([Calibration_Values [Num 3, Num 7, NaN, NaN, NaN, NaN, NaN, NaN], Calibration_Error],
          ?s\<lparr>running := True,
            calibration_values := [Num 3, Num 7, NaN, NaN, NaN, NaN, NaN, NaN]\<rparr>)"
    by simp
  moreover from calibrate_ignores_running [of example_board False "[]" True True ?s] e
  have "snd (calibrate example_board False [] True ?s) = ?s"
    by blast
  ultimately show ?thesis
    using a b c e by simp
qed

text \<open>
  C3 as stated fails: on a running server whose board answers the calibration's calls,
  the calibration completes and overwrites the vector.
\<close>

theorem calibrate_while_running_counterexample:
  "running (initial_server 3 45 2\<lparr>running := True\<rparr>)
   \<and> calibrate example_board True [Board_Data [[Num 2, Num 4], [Num 6, Num 8]]] True
        (initial_server 3 45 2\<lparr>running := True\<rparr>)
     = ([Calibration_Values [Num 3, Num 7, NaN, NaN, NaN, NaN, NaN, NaN]],
        initial_server 3 45 2\<lparr>running := True,
          calibration_values := [Num 3, Num 7, NaN, NaN, NaN, NaN, NaN, NaN]\<rparr>)
   \<and> calibration_values (initial_server 3 45 2\<lparr>running := True\<rparr>) = replicate 8 (Num 0)"
  by (simp add: calibrate_def initial_server_def example_board_def empty_lists_def
      select_rows_def np_size_def np_mean_def eval_nat_numeral)





section \<open>Properties of the acquisition loop\<close>

text \<open>
  C4 (as amended). Every pass of the loop that gets as far as the buffer replaces
  \<^verbatim>\<open>collected_data\<close> by the window of that pass as it is after filtering, baseline
  correction and normalisation of the reference channel: whatever the buffer held before
  is discarded, and the values stored are the processed ones.
\<close>

theorem collected_data_is_processed_window:
  assumes sel: "select_rows (eeg_channels b) d = Some w0"
    and sz: "np_size w0 \<noteq> 0"
    and pw: "process_window f b s w0 = Some w"
  shows "collected_data (state_of (loop_iteration f b (Board_Data d) s)) = w"
proof -
  have "length w = length (eeg_channels b)"
    using sel pw by (simp add: process_window_length select_rows_length)
  then have "extend_rows (replicate (length (eeg_channels b)) []) w = Some w"
    using extend_rows_fresh [of w] by simp
  with sel sz pw show ?thesis
    by (simp add: loop_iteration_def split: option.splits)
qed

theorem collected_data_is_processed_window_witness:
  "select_rows (eeg_channels one_channel_board) [[Num 2000, Num 2002]] = Some [[Num 2000, Num 2002]]
   \<and> np_size [[Num 2000, Num 2002]] \<noteq> 0
   \<and> process_window no_dsp one_channel_board (initial_server 3 45 2\<lparr>running := True\<rparr>)
        [[Num 2000, Num 2002]] = Some [[Num (- 1), Num 1]]
   \<and> collected_data (state_of (loop_iteration no_dsp one_channel_board
        (Board_Data [[Num 2000, Num 2002]]) (initial_server 3 45 2\<lparr>running := True\<rparr>)))
       = [[Num (- 1), Num 1]]"
proof -
  let ?d = "[[Num 2000, Num 2002]]"
  let ?s = "initial_server 3 45 2\<lparr>running := True\<rparr>"
  have a: "select_rows (eeg_channels one_channel_board) ?d = Some ?d"
    by (simp add: select_rows_def one_channel_board_def)
  have b: "np_size ?d \<noteq> 0" by (simp add: np_size_def)
  have c: "process_window no_dsp one_channel_board ?s ?d = Some [[Num (- 1), Num 1]]"
    by (simp add: process_window_def initial_server_def normalize_ref_def np_mean_def
        np_std_def Let_def)
  show ?thesis
    using a b c collected_data_is_processed_window [OF a b c] by simp
qed

text \<open>
  C4 as stated fails. After a first window whose reference row is \<open>2000, 2002\<close> the
  buffer holds the normalised values \<open>-1, 1\<close>, not the raw ones; after a second window
  it holds that window alone.
\<close>

theorem collected_data_counterexample:
  "collected_data (snd (read_loop no_dsp one_channel_board
      [Board_Data [[Num 2000, Num 2002]]] (initial_server 3 45 2\<lparr>running := True\<rparr>)))
     = [[Num (- 1), Num 1]]
   \<and> collected_data (snd (read_loop no_dsp one_channel_board
      [Board_Data [[Num 2000, Num 2002]], Board_Data [[Num 5, Num 6]]]
      (initial_server 3 45 2\<lparr>running := True\<rparr>)))
     = [[Num 5, Num 6]]"
  by (simp add: loop_iteration_def initial_server_def one_channel_board_def select_rows_def
      np_size_def process_window_def normalize_ref_def np_mean_def np_std_def Let_def)

lemma loop_iteration_running: "running (state_of (loop_iteration f b p s)) = running s"
  by (simp add: loop_iteration_def split: poll.splits option.splits)

lemma read_loop_running: "running (snd (read_loop f b ps s)) = running s"
proof (induction ps arbitrary: s)
  case Nil
  then show ?case by simp
next
  case (Cons p ps)
  show ?case
  proof (cases "loop_iteration f b p s")
    case (Continue s')
    with loop_iteration_running [of f b p s] have "running s' = running s" by simp
    with Continue Cons show ?thesis by simp
  next
    case (Exit s')
    with loop_iteration_running [of f b p s] show ?thesis by simp
  qed
qed

lemma fold_filter_channel_no_dsp: "fold (filter_channel no_dsp rate) cs w = w"
proof (induction cs)
  case Nil
  then show ?case by simp
next
  case (Cons c cs)
  have "filter_channel no_dsp rate c w = w"
    by (simp add: filter_channel_def filter_calls_def no_dsp_def)
  with Cons show ?case by simp
qed

lemma process_window_no_dsp:
  "process_window no_dsp b (s\<lparr>bandpass_enabled := True\<rparr>) w
     = process_window f b (s\<lparr>bandpass_enabled := False\<rparr>) w"
  by (simp add: process_window_def apply_filters_def fold_filter_channel_no_dsp)

lemma process_window_baseline_short:
  assumes "baseline_correction_enabled s" and "length (calibration_values s) < length w"
  shows "process_window f b s w = None"
  using assms
  by (simp add: process_window_def baseline_correct_def apply_filters_length)

lemma normalize_ref_Some: "w \<noteq> [] \<Longrightarrow> \<exists>w'. normalize_ref w = Some w'"
  by (cases w) (simp_all add: normalize_ref_def Let_def)

lemma process_window_Some:
  assumes "w \<noteq> []"
    and "baseline_correction_enabled s \<longrightarrow> length w \<le> length (calibration_values s)"
  shows "\<exists>w'. process_window f b s w = Some w'"
proof -
  define w1 where "w1 = (if bandpass_enabled s then apply_filters f b w else w)"
  have l1: "length w1 = length w"
    by (simp add: w1_def apply_filters_length)
  have "\<exists>w2. (if baseline_correction_enabled s
      then baseline_correct (calibration_values s) w1 else Some w1) = Some w2
      \<and> length w2 = length w1"
  proof (cases "baseline_correction_enabled s")
    case True
    with assms(2) l1 show ?thesis by (simp add: baseline_correct_def)
  next
    case False
    then show ?thesis by simp
  qed
  then obtain w2 where w2: "(if baseline_correction_enabled s
      then baseline_correct (calibration_values s) w1 else Some w1) = Some w2"
    and l2: "length w2 = length w1"
    by blast
  from l2 l1 assms(1) have "w2 \<noteq> []" by auto
  then obtain w' where "normalize_ref w2 = Some w'"
    using normalize_ref_Some by blast
  with w2 show ?thesis
    by (simp add: process_window_def Let_def w1_def [symmetric])
qed

lemma loop_iteration_collected:
  assumes sel: "select_rows (eeg_channels b) d = Some w0"
    and sz: "np_size w0 \<noteq> 0"
    and pw: "process_window f b s w0 = Some w"
  shows "collected_data (state_of (loop_iteration f b (Board_Data d) s)) = w"
proof -
  have "length w = length (eeg_channels b)"
    using sel pw by (simp add: process_window_length select_rows_length)
  then have "extend_rows (replicate (length (eeg_channels b)) []) w = Some w"
    using extend_rows_fresh [of w] by simp
  with sel sz pw show ?thesis
    by (simp add: loop_iteration_def split: option.splits)
qed

text \<open>
  C6 (as amended). Inside the loop, an exception raised by a poll, by the selection of
  the EEG rows or by the baseline correction (a calibration vector shorter than the
  window) reaches the handler that encloses the whole function: the function ends there,
  the later polls are never made and the state stays as it was. An exception during
  session setup ends it likewise. In none of these cases, nor in any other run, does the
  function change the \<open>running\<close> flag. Only the exceptions of the filter calls are caught
  inside a pass: whatever the filter calls do, a pass whose rows are selected and whose
  calibration vector is long enough gets as far as storing its processed window, and when
  every filter call raises, the pass does what the pass without filtering does.
\<close>

theorem loop_exceptions:
  "(running s \<longrightarrow> read_eeg_data_brainflow f b True (Poll_Raises # ps) s = (Error_Logged, s))
   \<and> (running s \<and> select_rows (eeg_channels b) d = None
        \<longrightarrow> read_eeg_data_brainflow f b True (Board_Data d # ps) s = (Error_Logged, s))
   \<and> (running s \<and> select_rows (eeg_channels b) d = Some w \<and> np_size w \<noteq> 0
        \<and> baseline_correction_enabled s
        \<and> length (calibration_values s) < length (eeg_channels b)
        \<longrightarrow> read_eeg_data_brainflow f b True (Board_Data d # ps) s = (Error_Logged, s))
   \<and> read_eeg_data_brainflow f b False ps s = (Error_Logged, s)
   \<and> running (snd (read_eeg_data_brainflow f b setup_ok ps s)) = running s
   \<and> (select_rows (eeg_channels b) d = Some w \<and> np_size w \<noteq> 0
        \<and> (baseline_correction_enabled s
             \<longrightarrow> length (eeg_channels b) \<le> length (calibration_values s))
        \<longrightarrow> (\<exists>w'. process_window f b s w = Some w'
                  \<and> collected_data (state_of (loop_iteration f b (Board_Data d) s)) = w'))
   \<and> loop_iteration no_dsp b p (s\<lparr>bandpass_enabled := True\<rparr>)
       = map_step (\<lambda>t. t\<lparr>bandpass_enabled := True\<rparr>)
           (loop_iteration f b p (s\<lparr>bandpass_enabled := False\<rparr>))"
proof (intro conjI impI)
  assume "running s"
  then show "read_eeg_data_brainflow f b True (Poll_Raises # ps) s = (Error_Logged, s)"
    by (simp add: read_eeg_data_brainflow_def loop_iteration_def)
next
  assume "running s \<and> select_rows (eeg_channels b) d = None"
  then show "read_eeg_data_brainflow f b True (Board_Data d # ps) s = (Error_Logged, s)"
    by (simp add: read_eeg_data_brainflow_def loop_iteration_def)
next
  assume a: "running s \<and> select_rows (eeg_channels b) d = Some w \<and> np_size w \<noteq> 0
        \<and> baseline_correction_enabled s
        \<and> length (calibration_values s) < length (eeg_channels b)"
  then have r: "running s" and sel: "select_rows (eeg_channels b) d = Some w"
    and sz: "np_size w \<noteq> 0" and bl: "baseline_correction_enabled s"
    and sh: "length (calibration_values s) < length (eeg_channels b)"
    by simp_all
  from sel have "length w = length (eeg_channels b)"
    by (rule select_rows_length)
  with bl sh have "process_window f b s w = None"
    by (simp add: process_window_baseline_short)
  with r sel sz show "read_eeg_data_brainflow f b True (Board_Data d # ps) s = (Error_Logged, s)"
    by (simp add: read_eeg_data_brainflow_def loop_iteration_def)
next
  show "read_eeg_data_brainflow f b False ps s = (Error_Logged, s)"
    by (simp add: read_eeg_data_brainflow_def)
next
  show "running (snd (read_eeg_data_brainflow f b setup_ok ps s)) = running s"
    by (simp add: read_eeg_data_brainflow_def read_loop_running)
next
  assume a: "select_rows (eeg_channels b) d = Some w \<and> np_size w \<noteq> 0
        \<and> (baseline_correction_enabled s
             \<longrightarrow> length (eeg_channels b) \<le> length (calibration_values s))"
  then have sel: "select_rows (eeg_channels b) d = Some w" and sz: "np_size w \<noteq> 0"
    and bl: "baseline_correction_enabled s
             \<longrightarrow> length (eeg_channels b) \<le> length (calibration_values s)"
    by simp_all
  from sel have len: "length w = length (eeg_channels b)"
    by (rule select_rows_length)
  from sz have ne: "w \<noteq> []"
    by (rule np_size_nonempty)
  from bl len have "baseline_correction_enabled s \<longrightarrow> length w \<le> length (calibration_values s)"
    by simp
  with ne obtain w' where pw: "process_window f b s w = Some w'"
    using process_window_Some [of w s f b] by blast
  from sel sz pw have "collected_data (state_of (loop_iteration f b (Board_Data d) s)) = w'"
    by (rule loop_iteration_collected)
  with pw show "\<exists>w'. process_window f b s w = Some w'
                  \<and> collected_data (state_of (loop_iteration f b (Board_Data d) s)) = w'"
    by simp
next
  show "loop_iteration no_dsp b p (s\<lparr>bandpass_enabled := True\<rparr>)
       = map_step (\<lambda>t. t\<lparr>bandpass_enabled := True\<rparr>)
           (loop_iteration f b p (s\<lparr>bandpass_enabled := False\<rparr>))"
    by (simp add: loop_iteration_def process_window_no_dsp [of b s _ f]
        split: poll.splits option.splits)
qed

theorem loop_exceptions_witness:
  "running (initial_server 3 45 2\<lparr>running := True\<rparr>)
   \<and> read_eeg_data_brainflow no_dsp one_channel_board True
        [Poll_Raises, Board_Data [[Num 5, Num 6]]] (initial_server 3 45 2\<lparr>running := True\<rparr>)
       = (Error_Logged, initial_server 3 45 2\<lparr>running := True\<rparr>)
   \<and> select_rows (eeg_channels example_board) [[Num 5, Num 6]] = None
   \<and> read_eeg_data_brainflow no_dsp example_board True
        [Board_Data [[Num 5, Num 6]], Board_Data [[Num 5, Num 6], [Num 7, Num 8]]]
        (initial_server 3 45 2\<lparr>running := True\<rparr>)
       = (Error_Logged, initial_server 3 45 2\<lparr>running := True\<rparr>)
   \<and> baseline_correction_enabled
        (initial_server 3 45 2\<lparr>running := True, baseline_correction_enabled := True,
           calibration_values := [Num 1]\<rparr>)
   \<and> read_eeg_data_brainflow no_dsp example_board True
        [Board_Data [[Num 5, Num 6], [Num 7, Num 8]]]
        (initial_server 3 45 2\<lparr>running := True, baseline_correction_enabled := True,
           calibration_values := [Num 1]\<rparr>)
       = (Error_Logged,
          initial_server 3 45 2\<lparr>running := True, baseline_correction_enabled := True,
            calibration_values := [Num 1]\<rparr>)"
proof -
  let ?s = "initial_server 3 45 2\<lparr>running := True\<rparr>"
  let ?t = "initial_server 3 45 2\<lparr>running := True, baseline_correction_enabled := True,
           calibration_values := [Num 1]\<rparr>"
  let ?d = "[[Num 5, Num 6], [Num 7, Num 8]]"
  have r: "running ?s" by simp
  have n: "select_rows (eeg_channels example_board) [[Num 5, Num 6]] = None"
    by (simp add: select_rows_def example_board_def)
  have c: "running ?t \<and> select_rows (eeg_channels example_board) ?d = Some ?d
        \<and> np_size ?d \<noteq> 0 \<and> baseline_correction_enabled ?t
        \<and> length (calibration_values ?t) < length (eeg_channels example_board)"
    by (simp add: select_rows_def example_board_def np_size_def)
  note th1 = loop_exceptions [where s = ?s and f = no_dsp and b = one_channel_board
      and ps = "[Board_Data [[Num 5, Num 6]]]"]
  note th2 = loop_exceptions [where s = ?s and f = no_dsp and b = example_board
      and d = "[[Num 5, Num 6]]" and ps = "[Board_Data ?d]"]
  note th3 = loop_exceptions [where s = ?t and f = no_dsp and b = example_board
      and d = ?d and w = ?d and ps = "[]"]
  from th1 r have 1: "read_eeg_data_brainflow no_dsp one_channel_board True
        [Poll_Raises, Board_Data [[Num 5, Num 6]]] ?s = (Error_Logged, ?s)"
    by blast
  from th2 r n have 2: "read_eeg_data_brainflow no_dsp example_board True
        [Board_Data [[Num 5, Num 6]], Board_Data ?d] ?s = (Error_Logged, ?s)"
    by blast
  from th3 c have 3: "read_eeg_data_brainflow no_dsp example_board True [Board_Data ?d] ?t
        = (Error_Logged, ?t)"
    by blast
  from r n c 1 2 3 show ?thesis by simp
qed

text \<open>
  C6 as stated fails. A poll that raises ends the function instead of skipping the pass:
  the window of the next poll, which would have been published, never is. After a failed
  session setup the flag still says running.
\<close>

theorem loop_exceptions_counterexample:
  "running (initial_server 3 45 2\<lparr>running := True\<rparr>)
   \<and> read_eeg_data_brainflow no_dsp one_channel_board True
        [Poll_Raises, Board_Data [[Num 5, Num 6]]] (initial_server 3 45 2\<lparr>running := True\<rparr>)
       = (Error_Logged, initial_server 3 45 2\<lparr>running := True\<rparr>)
   \<and> emitted (initial_server 3 45 2\<lparr>running := True\<rparr>) = []
   \<and> read_eeg_data_brainflow no_dsp one_channel_board True
        [Board_Data [[Num 5, Num 6]]] (initial_server 3 45 2\<lparr>running := True\<rparr>)
       = (In_Loop, initial_server 3 45 2\<lparr>running := True, collected_data := [[Num 5, Num 6]],
            emitted := [[Num 5]]\<rparr>)
   \<and> running (snd (read_eeg_data_brainflow no_dsp one_channel_board False
        [Board_Data [[Num 5, Num 6]]] (initial_server 3 45 2\<lparr>running := True\<rparr>)))"
  by (simp add: read_eeg_data_brainflow_def loop_iteration_def initial_server_def
      one_channel_board_def select_rows_def np_size_def process_window_def normalize_ref_def
      np_mean_def np_std_def Let_def)

text \<open>
  C7 (as amended). Every \<^verbatim>\<open>update_data\<close> event carries exactly one float per EEG channel of
  the board, whatever the enabled-channels setting, in the order of the board's channel
  list, and the float at each position is a sample of the processed window row at that
  position.
\<close>

theorem update_event_shape:
  assumes sel: "select_rows (eeg_channels b) d = Some w0"
    and sz: "np_size w0 \<noteq> 0"
    and pw: "process_window f b s w0 = Some w"
    and cont: "loop_iteration f b (Board_Data d) s = Continue s'"
  shows "\<exists>raw. emitted s' = emitted s @ [raw]
           \<and> length raw = length (eeg_channels b)
           \<and> (\<forall>i<length raw. raw ! i \<in> set (w ! i))"
proof -
  have len: "length w = length (eeg_channels b)"
    using sel pw by (simp add: process_window_length select_rows_length)
  then have ext: "extend_rows (replicate (length (eeg_channels b)) []) w = Some w"
    using extend_rows_fresh [of w] by simp
  from sel sz pw ext cont obtain raw where
    fs: "first_samples w = Some raw" and em: "emitted s' = emitted s @ [raw]"
    by (auto simp: loop_iteration_def split: option.splits)
  from fs have raw: "raw = map hd w" and ne: "[] \<notin> set w"
    by (simp_all add: first_samples_Some)
  have "\<forall>i<length raw. raw ! i \<in> set (w ! i)"
  proof (intro allI impI)
    fix i assume "i < length raw"
    with raw have i: "i < length w" by simp
    with ne have "w ! i \<noteq> []" by (metis nth_mem)
    with raw i show "raw ! i \<in> set (w ! i)" by simp
  qed
  with em raw len show ?thesis by simp
qed

theorem update_event_shape_witness:
  "select_rows (eeg_channels example_board) [[Num 1, Num 2], [Num 3, Num 4]]
     = Some [[Num 1, Num 2], [Num 3, Num 4]]
   \<and> np_size [[Num 1, Num 2], [Num 3, Num 4]] \<noteq> 0
   \<and> (\<exists>raw. emitted (initial_server 3 45 2\<lparr>running := True, collected_data := [[Num 1, Num 2], [Num 3, Num 4]],
            emitted := [[Num 1, Num 3]]\<rparr>) = emitted (initial_server 3 45 2) @ [raw] \<and> length raw = 2)"
proof -
  let ?d = "[[Num 1, Num 2], [Num 3, Num 4]]"
  let ?s = "initial_server 3 45 2\<lparr>running := True\<rparr>"
  have a: "select_rows (eeg_channels example_board) ?d = Some ?d"
    by (simp add: select_rows_def example_board_def)
  have b: "np_size ?d \<noteq> 0" by (simp add: np_size_def)
  have c: "process_window no_dsp example_board ?s ?d = Some ?d"
    by (simp add: process_window_def initial_server_def normalize_ref_def np_mean_def Let_def)
  have d: "loop_iteration no_dsp example_board (Board_Data ?d) ?s
             = Continue (?s\<lparr>collected_data := ?d, emitted := [[Num 1, Num 3]]\<rparr>)"
    by (simp add: loop_iteration_def example_board_def initial_server_def select_rows_def
        np_size_def process_window_def normalize_ref_def np_mean_def Let_def)
  show ?thesis
    using a b update_event_shape [OF a b c d]
    by (simp add: example_board_def initial_server_def)
qed

text \<open>
  C7 as stated fails: with one enabled channel and a board of two EEG channels the event
  carries two floats, and they are the samples at index 0 of the rows, \<open>1\<close> and \<open>3\<close>,
  where the last samples of the rows are \<open>2\<close> and \<open>4\<close>.
\<close>

theorem update_event_counterexample:
  "enabled_channels (initial_server 3 45 2\<lparr>running := True, enabled_channels := 1\<rparr>) = 1
   \<and> emitted (snd (read_loop no_dsp example_board [Board_Data [[Num 1, Num 2], [Num 3, Num 4]]]
        (initial_server 3 45 2\<lparr>running := True, enabled_channels := 1\<rparr>)))
       = [[Num 1, Num 3]]
   \<and> map last [[Num 1, Num 2], [Num 3, Num 4]] = [Num 2, Num 4]"
  by (simp add: loop_iteration_def initial_server_def example_board_def select_rows_def
      np_size_def process_window_def normalize_ref_def np_mean_def np_std_def Let_def)

section \<open>Properties of the filter chain\<close>

lemma fold_filter_channel_other:
  "c \<notin> set cs \<Longrightarrow> fold (filter_channel f rate) cs w ! c = w ! c"
proof (induction cs arbitrary: w)
  case Nil
  then show ?case by simp
next
  case (Cons a cs)
  then have "filter_channel f rate a w ! c = w ! c"
    by (auto simp: filter_channel_def)
  with Cons show ?case by simp
qed

lemma fold_filter_channel_once:
  assumes "distinct cs" and "c \<in> set cs" and "c < length w"
  shows "fold (filter_channel f rate) cs w ! c = apply_ops f (filter_calls rate) (w ! c)"
  using assms
proof (induction cs arbitrary: w)
  case Nil
  then show ?case by simp
next
  case (Cons a cs)
  show ?case
  proof (cases "a = c")
    case True
    with Cons.prems have "c \<notin> set cs" by simp
    then have "fold (filter_channel f rate) cs (filter_channel f rate a w) ! c
                 = filter_channel f rate a w ! c"
      by (rule fold_filter_channel_other)
    moreover have "filter_channel f rate a w ! c = apply_ops f (filter_calls rate) (w ! c)"
      using True Cons.prems(3) by (simp add: filter_channel_def)
    ultimately show ?thesis by simp
  next
    case False
    with Cons.prems have d: "distinct cs" and m: "c \<in> set cs" by simp_all
    have l: "c < length (filter_channel f rate a w)"
      using Cons.prems(3) by (simp add: filter_channel_length)
    have "fold (filter_channel f rate) cs (filter_channel f rate a w) ! c
        = apply_ops f (filter_calls rate) (filter_channel f rate a w ! c)"
      using d m l by (rule Cons.IH)
    moreover have "filter_channel f rate a w ! c = w ! c"
      using False by (auto simp: filter_channel_def)
    ultimately show ?thesis by simp
  qed
qed

lemma baseline_correct_nth:
  assumes "baseline_correct cal w = Some w2" and "c < length w"
  shows "w2 ! c = map (\<lambda>x. fsub x (cal ! c)) (w ! c)"
  using assms by (auto simp: baseline_correct_def split: if_splits)

lemma normalize_ref_nth:
  assumes "normalize_ref w = Some w'" and "c < length w"
  shows "w' ! c
     = (if c = 0 \<and> fgt (np_mean (w ! c)) 1000
        then map (\<lambda>x. fdiv (fsub x (np_mean (w ! c))) (np_std (w ! c))) (w ! c)
        else w ! c)"
  using assms
  by (cases w; cases c) (auto simp: normalize_ref_def Let_def split: if_splits)

lemma process_window_settings:
  "process_window f b (s\<lparr>lowcut := lo, highcut := hi, order := k\<rparr>) w = process_window f b s w"
  by (simp add: process_window_def)

lemma loop_iteration_settings:
  "loop_iteration f b p (s\<lparr>lowcut := lo, highcut := hi, order := k\<rparr>)
     = map_step (\<lambda>t. t\<lparr>lowcut := lo, highcut := hi, order := k\<rparr>) (loop_iteration f b p s)"
  by (simp add: loop_iteration_def process_window_settings split: poll.splits option.splits)

text \<open>
  C8 (as amended). In a pass of the loop with the band-pass switch set, a window row
  whose index is listed among the board's EEG channels is processed, when none of the
  calls raises, in this order: detrending of the constant offset, a zero-phase band-pass
  in the fixed band 3 to 45 Hz of order 2, a notch at 48 to 52 Hz, a notch at 58 to 62 Hz.
  What the pass stores for that row is the result of the last notch, after the baseline
  correction if that is switched on and, for row 0, after the normalisation of the
  reference channel. The configured \<open>lowcut\<close>, \<open>highcut\<close> and \<open>order\<close> have no influence
  on a pass.
\<close>

theorem filter_chain_order:
  assumes bp: "bandpass_enabled s"
    and sel: "select_rows (eeg_channels b) d = Some w"
    and sz: "np_size w \<noteq> 0"
    and bl: "baseline_correction_enabled s
             \<longrightarrow> length (eeg_channels b) \<le> length (calibration_values s)"
    and dist: "distinct (eeg_channels b)"
    and mem: "c \<in> set (eeg_channels b)"
    and c: "c < length w"
    and r1: "f (Detrend CONSTANT) (w ! c) = Some r1"
    and r2: "f (Perform_Bandpass (sampling_rate b) 3 45 2 BUTTERWORTH_ZERO_PHASE 0) r1 = Some r2"
    and r3: "f (Perform_Bandstop (sampling_rate b) 48 52 2 BUTTERWORTH_ZERO_PHASE 0) r2 = Some r3"
    and r4: "f (Perform_Bandstop (sampling_rate b) 58 62 2 BUTTERWORTH_ZERO_PHASE 0) r3 = Some r4"
  shows "collected_data (state_of (loop_iteration f b (Board_Data d) s)) ! c
           = (let r5 = (if baseline_correction_enabled s
                        then map (\<lambda>x. fsub x (calibration_values s ! c)) r4 else r4)
              in if c = 0 \<and> fgt (np_mean r5) 1000
                 then map (\<lambda>x. fdiv (fsub x (np_mean r5)) (np_std r5)) r5
                 else r5)
       \<and> loop_iteration f b (Board_Data d) (s\<lparr>lowcut := lo, highcut := hi, order := k\<rparr>)
           = map_step (\<lambda>t. t\<lparr>lowcut := lo, highcut := hi, order := k\<rparr>)
               (loop_iteration f b (Board_Data d) s)"
proof -
  from sel have len: "length w = length (eeg_channels b)"
    by (rule select_rows_length)
  from sz have ne: "w \<noteq> []"
    by (rule np_size_nonempty)
  from bl len have "baseline_correction_enabled s \<longrightarrow> length w \<le> length (calibration_values s)"
    by simp
  with ne obtain w' where pw: "process_window f b s w = Some w'"
    using process_window_Some [of w s f b] by blast
  from sel sz pw have stored: "collected_data (state_of (loop_iteration f b (Board_Data d) s)) = w'"
    by (rule loop_iteration_collected)
  let ?w1 = "apply_filters f b w"
  have l1: "length ?w1 = length w"
    by (rule apply_filters_length)
  have "?w1 ! c = apply_ops f (filter_calls (sampling_rate b)) (w ! c)"
    unfolding apply_filters_def using dist mem c by (rule fold_filter_channel_once)
  also have "\<dots> = r4"
    using r1 r2 r3 r4 by (simp add: filter_calls_def)
  finally have f4: "?w1 ! c = r4" .
  from pw bp obtain w2 where
    w2: "(if baseline_correction_enabled s
          then baseline_correct (calibration_values s) ?w1 else Some ?w1) = Some w2"
    and nz: "normalize_ref w2 = Some w'"
    by (auto simp: process_window_def Let_def split: option.splits)
  let ?r5 = "if baseline_correction_enabled s
             then map (\<lambda>x. fsub x (calibration_values s ! c)) r4 else r4"
  have l2: "length w2 = length w"
  proof (cases "baseline_correction_enabled s")
    case True
    with w2 l1 show ?thesis by (auto dest: baseline_correct_length)
  next
    case False
    with w2 l1 show ?thesis by simp
  qed
  have f5: "w2 ! c = ?r5"
  proof (cases "baseline_correction_enabled s")
    case True
    with w2 have "baseline_correct (calibration_values s) ?w1 = Some w2" by simp
    then have "w2 ! c = map (\<lambda>x. fsub x (calibration_values s ! c)) (?w1 ! c)"
      using c l1 by (simp add: baseline_correct_nth)
    with True f4 show ?thesis by simp
  next
    case False
    with w2 f4 show ?thesis by auto
  qed
  from nz c l2 have nth: "w' ! c
     = (if c = 0 \<and> fgt (np_mean (w2 ! c)) 1000
        then map (\<lambda>x. fdiv (fsub x (np_mean (w2 ! c))) (np_std (w2 ! c))) (w2 ! c)
        else w2 ! c)"
    by (simp add: normalize_ref_nth)
  have first: "collected_data (state_of (loop_iteration f b (Board_Data d) s)) ! c
           = (let r5 = ?r5
              in if c = 0 \<and> fgt (np_mean r5) 1000
                 then map (\<lambda>x. fdiv (fsub x (np_mean r5)) (np_std r5)) r5
                 else r5)"
    unfolding stored Let_def f5 [symmetric] by (rule nth)
  show ?thesis
    by (rule conjI [OF first loop_iteration_settings])
qed

theorem filter_chain_order_witness:
  "bandpass_enabled (initial_server 3 45 2\<lparr>running := True, bandpass_enabled := True\<rparr>)
   \<and> select_rows (eeg_channels example_board) [[Num 1, Num 3], [Num 2, Num 4]]
       = Some [[Num 1, Num 3], [Num 2, Num 4]]
   \<and> distinct (eeg_channels example_board)
   \<and> 1 \<in> set (eeg_channels example_board)
   \<and> example_dsp (Detrend CONSTANT) [Num 2, Num 4] = Some [Num (- 1), Num 1]
   \<and> example_dsp (Perform_Bandpass 250 3 45 2 BUTTERWORTH_ZERO_PHASE 0) [Num (- 1), Num 1]
       = Some [Num (- 4), Num (- 2)]
   \<and> example_dsp (Perform_Bandstop 250 48 52 2 BUTTERWORTH_ZERO_PHASE 0) [Num (- 4), Num (- 2)]
       = Some [Num (- 13), Num (- 25 / 2)]
   \<and> example_dsp (Perform_Bandstop 250 58 62 2 BUTTERWORTH_ZERO_PHASE 0)
        [Num (- 13), Num (- 25 / 2)]
       = Some [Num (- 71 / 4), Num (- 141 / 8)]
   \<and> collected_data (state_of (loop_iteration example_dsp example_board
        (Board_Data [[Num 1, Num 3], [Num 2, Num 4]])
        (initial_server 3 45 2\<lparr>running := True, bandpass_enabled := True\<rparr>))) ! 1
       = [Num (- 71 / 4), Num (- 141 / 8)]"
proof -
  let ?w = "[[Num 1, Num 3], [Num 2, Num 4]]"
  let ?s = "initial_server 3 45 2\<lparr>running := True, bandpass_enabled := True\<rparr>"
  have bp: "bandpass_enabled ?s" by simp
  have sel: "select_rows (eeg_channels example_board) ?w = Some ?w"
    by (simp add: select_rows_def example_board_def)
  have sz: "np_size ?w \<noteq> 0" by (simp add: np_size_def)
  have bl: "baseline_correction_enabled ?s
             \<longrightarrow> length (eeg_channels example_board) \<le> length (calibration_values ?s)"
    by (simp add: initial_server_def)
  have nb: "\<not> baseline_correction_enabled ?s" by (simp add: initial_server_def)
  have a: "distinct (eeg_channels example_board)" by (simp add: example_board_def)
  have b: "1 \<in> set (eeg_channels example_board)" by (simp add: example_board_def)
  have c: "1 < length ?w" by simp
  have r: "sampling_rate example_board = 250" by (simp add: example_board_def)
  have d: "example_dsp (Detrend CONSTANT) (?w ! 1) = Some [Num (- 1), Num 1]"
    by (simp add: example_dsp_def np_mean_def)
  have e: "example_dsp (Perform_Bandpass (sampling_rate example_board) 3 45 2
             BUTTERWORTH_ZERO_PHASE 0) [Num (- 1), Num 1] = Some [Num (- 4), Num (- 2)]"
    by (simp add: example_dsp_def)
  have f: "example_dsp (Perform_Bandstop (sampling_rate example_board) 48 52 2
             BUTTERWORTH_ZERO_PHASE 0) [Num (- 4), Num (- 2)] = Some [Num (- 13), Num (- 25 / 2)]"
    by (simp add: example_dsp_def)
  have g: "example_dsp (Perform_Bandstop (sampling_rate example_board) 58 62 2
             BUTTERWORTH_ZERO_PHASE 0) [Num (- 13), Num (- 25 / 2)]
             = Some [Num (- 71 / 4), Num (- 141 / 8)]"
    by (simp add: example_dsp_def)
  from filter_chain_order [OF bp sel sz bl a b c d e f g, THEN conjunct1] nb
  have "collected_data (state_of (loop_iteration example_dsp example_board (Board_Data ?w) ?s)) ! 1
       = [Num (- 71 / 4), Num (- 141 / 8)]"
    by (simp add: Let_def)
  with bp sel a b d e f g r show ?thesis
    by simp
qed

text \<open>
  C8 as stated fails: after the settings were updated to the band 1 to 30 Hz, order 4,
  the band-pass call is still the one for 3 to 45 Hz, order 2.
\<close>

theorem configured_band_counterexample:
  "lowcut (snd (update_settings \<lparr>new_lowcut = Some 1, new_highcut = Some 30, new_order = Some 4,
       new_baseline_correction_enabled = None, new_enabled_channels = None,
       new_bandpass_filter_enabled = Some True\<rparr> (initial_server 3 45 2))) = 1
   \<and> highcut (snd (update_settings \<lparr>new_lowcut = Some 1, new_highcut = Some 30, new_order = Some 4,
       new_baseline_correction_enabled = None, new_enabled_channels = None,
       new_bandpass_filter_enabled = Some True\<rparr> (initial_server 3 45 2))) = 30
   \<and> filter_calls 250 ! 1 = Perform_Bandpass 250 3 45 2 BUTTERWORTH_ZERO_PHASE 0
   \<and> configured_filter_calls (snd (update_settings \<lparr>new_lowcut = Some 1, new_highcut = Some 30,
       new_order = Some 4, new_baseline_correction_enabled = None, new_enabled_channels = None,
       new_bandpass_filter_enabled = Some True\<rparr> (initial_server 3 45 2))) 250 ! 1
       = Perform_Bandpass 250 1 30 4 BUTTERWORTH_ZERO_PHASE 0"
  by (simp add: update_settings_def initial_server_def filter_calls_def
      configured_filter_calls_def get_or_def)

section \<open>Properties of \<^verbatim>\<open>export_data\<close>\<close>

lemma min_len_uniform:
  "d \<noteq> [] \<Longrightarrow> \<forall>ch\<in>set d. length ch = L \<Longrightarrow> min_len d = L"
  by (induction d rule: min_len.induct) auto

lemma py_zip_star_take:
  assumes "d \<noteq> []" and "\<forall>ch\<in>set d. length ch = L"
  shows "py_zip_star (map (take k) d) = map (\<lambda>i. map (\<lambda>ch. ch ! i) d) [0..<min k L]"
proof -
  have "min_len (map (take k) d) = min k L"
  proof (rule min_len_uniform)
    show "map (take k) d \<noteq> []" using assms(1) by simp
    show "\<forall>ch\<in>set (map (take k) d). length ch = min k L" using assms(2) by auto
  qed
  then show ?thesis
    by (simp add: py_zip_star_def comp_def)
qed

lemma digit_cases: "d < 10 \<Longrightarrow> d \<in> {0, 1, 2, 3, 4, 5, 6, 7, 8, 9::nat}"
  by auto

lemma digit_char_code: "d < 10 \<Longrightarrow> of_char (''0123456789'' ! d) = (48 + d :: nat)"
  by (drule digit_cases) auto

lemma digit_char_mem: "d < 10 \<Longrightarrow> ''0123456789'' ! d \<in> set ''0123456789''"
  by (drule digit_cases) auto

lemma digit_char_zero: "d < 10 \<Longrightarrow> (''0123456789'' ! d = CHR ''0'') = (d = 0)"
  by (drule digit_cases) auto

lemma str_nat_decimal:
  "str_nat k \<noteq> []
   \<and> set (str_nat k) \<subseteq> set ''0123456789''
   \<and> (0 < k \<longrightarrow> hd (str_nat k) \<noteq> CHR ''0'')
   \<and> (k = 0 \<longrightarrow> str_nat k = ''0'')
   \<and> fold (\<lambda>c v. 10 * v + (of_char c - 48)) (str_nat k) 0 = k"
proof (induction k rule: str_nat.induct)
  case (1 n)
  show ?case
  proof (cases "n < 10")
    case True
    then have s: "str_nat n = [''0123456789'' ! n]"
      by (simp add: str_nat.simps)
    from True show ?thesis
      unfolding s
      using digit_char_code [OF True] digit_char_mem [OF True] digit_char_zero [OF True]
      by auto
  next
    case False
    let ?d = "n mod 10"
    have d: "?d < 10" by simp
    from False have q: "0 < n div 10" by simp
    from False have s: "str_nat n = str_nat (n div 10) @ [''0123456789'' ! ?d]"
      by (subst str_nat.simps) simp
    note ih = 1 [OF False]
    from ih q have ne: "str_nat (n div 10) \<noteq> []" and h: "hd (str_nat (n div 10)) \<noteq> CHR ''0''"
      and m: "set (str_nat (n div 10)) \<subseteq> set ''0123456789''"
      and v: "fold (\<lambda>c v. 10 * v + (of_char c - 48)) (str_nat (n div 10)) 0 = n div 10"
      by simp_all
    have "fold (\<lambda>c v. 10 * v + (of_char c - 48)) (str_nat n) 0 = 10 * (n div 10) + ?d"
      unfolding s using v digit_char_code [OF d] by simp
    then have val: "fold (\<lambda>c v. 10 * v + (of_char c - 48)) (str_nat n) 0 = n"
      by simp
    have mem: "set (str_nat n) \<subseteq> set ''0123456789''"
      unfolding s using m digit_char_mem [OF d] by simp
    have hd: "hd (str_nat n) \<noteq> CHR ''0''"
      unfolding s using ne h by simp
    have "str_nat n \<noteq> []" unfolding s by simp
    with val mem hd False show ?thesis by simp
  qed
qed

text \<open>
  C5. For a buffer with at least one channel whose channels all hold \<open>L\<close> values and a
  row count \<open>n \<ge> 0\<close>, the export answers with the CSV made of one header row followed by
  exactly \<open>min n L\<close> data rows, the \<open>i\<close>-th of which holds the \<open>i\<close>-th value of every
  channel; a row count above \<open>L\<close> is clamped and raises nothing. The header names the
  channels: its cell for the channel at position \<open>i\<close> is the text \<^verbatim>\<open>Channel\<close> followed by
  the decimal numeral of \<open>i + 1\<close> (digits only, no leading zero, denoting that number).
  Without the \<^verbatim>\<open>num_rows\<close> argument the export is the one for 5000 rows.
\<close>

theorem export_rows:
  assumes "collected_data s \<noteq> []"
    and "\<forall>ch\<in>set (collected_data s). length ch = L"
    and "0 \<le> n"
  shows "export_data (Int_Text n) s
           = Csv_Attachment
               (map (\<lambda>i. Text (''Channel'' @ str_nat (i + 1))) [0..<length (collected_data s)]
                # map (\<lambda>i. map (\<lambda>ch. Number (ch ! i)) (collected_data s)) [0..<min (nat n) L])
       \<and> (\<forall>k. str_nat k \<noteq> []
              \<and> set (str_nat k) \<subseteq> set ''0123456789''
              \<and> (0 < k \<longrightarrow> hd (str_nat k) \<noteq> CHR ''0'')
              \<and> (k = 0 \<longrightarrow> str_nat k = ''0'')
              \<and> fold (\<lambda>c v. 10 * v + (of_char c - 48)) (str_nat k) 0 = k)
       \<and> export_data Absent s = export_data (Int_Text 5000) s"
proof -
  from assms(1) obtain ch0 rest where cd: "collected_data s = ch0 # rest"
    by (cases "collected_data s") auto
  with assms(2) have l0: "length ch0 = L" by simp
  define num_rows where "num_rows = (if n > int L then int L else n)"
  have nr: "nat num_rows = min (nat n) L" and nn: "0 \<le> num_rows"
    using assms(3) by (auto simp: num_rows_def)
  have sl: "map (py_slice_to num_rows) (collected_data s) = map (take (nat num_rows)) (collected_data s)"
    using nn by (simp add: py_slice_to_def)
  have "export_data (Int_Text n) s
          = Csv_Attachment (create_csv (map (py_slice_to num_rows) (collected_data s)))"
    by (simp add: export_data_def cd l0 num_rows_def Let_def)
  also have "create_csv (map (py_slice_to num_rows) (collected_data s))
          = map (\<lambda>i. Text (''Channel'' @ str_nat (i + 1))) [0..<length (collected_data s)]
            # map (\<lambda>i. map (\<lambda>ch. Number (ch ! i)) (collected_data s)) [0..<min (nat n) L]"
    unfolding sl create_csv_def header_row_def
    using py_zip_star_take [OF assms(1) assms(2), of "nat num_rows"]
    by (simp add: nr comp_def)
  finally have main: "export_data (Int_Text n) s
           = Csv_Attachment
               (map (\<lambda>i. Text (''Channel'' @ str_nat (i + 1))) [0..<length (collected_data s)]
                # map (\<lambda>i. map (\<lambda>ch. Number (ch ! i)) (collected_data s)) [0..<min (nat n) L])" .
  have dflt: "export_data Absent s = export_data (Int_Text 5000) s"
    by (simp add: export_data_def)
  have dec: "\<forall>k. str_nat k \<noteq> []
              \<and> set (str_nat k) \<subseteq> set ''0123456789''
              \<and> (0 < k \<longrightarrow> hd (str_nat k) \<noteq> CHR ''0'')
              \<and> (k = 0 \<longrightarrow> str_nat k = ''0'')
              \<and> fold (\<lambda>c v. 10 * v + (of_char c - 48)) (str_nat k) 0 = k"
    by (rule allI) (rule str_nat_decimal)
  show ?thesis
    by (rule conjI [OF main conjI [OF dec dflt]])
qed

theorem export_rows_witness:
  "collected_data (initial_server 3 45 2\<lparr>collected_data := [[Num 1, Num 2, Num 3], [Num 4, Num 5, Num 6]]\<rparr>) \<noteq> []
   \<and> (0::int) \<le> 10
   \<and> export_data (Int_Text 10)
        (initial_server 3 45 2\<lparr>collected_data := [[Num 1, Num 2, Num 3], [Num 4, Num 5, Num 6]]\<rparr>)
      = Csv_Attachment
          [ [Text ''Channel1'', Text ''Channel2''],
            [Number (Num 1), Number (Num 4)],
            [Number (Num 2), Number (Num 5)],
            [Number (Num 3), Number (Num 6)] ]"
proof -
  let ?s = "initial_server 3 45 2\<lparr>collected_data := [[Num 1, Num 2, Num 3], [Num 4, Num 5, Num 6]]\<rparr>"
  have a: "collected_data ?s \<noteq> []" by simp
  have b: "\<forall>ch\<in>set (collected_data ?s). length ch = 3" by simp
  have c: "(0::int) \<le> 10" by simp
  have u: "[0..<3] = [0, 1, 2]" by (simp add: upt_rec)
  show ?thesis
    using a export_rows [OF a b c, THEN conjunct1]
    by (simp add: str_nat.simps u upt_rec)
qed

section \<open>Properties of the browser chart\<close>

lemma update_data_labels:
  "labels (update_data now now_at raw c)
     = (if length (labels c) > 100 then shift (labels c) else labels c) @ [now]"
  by (simp add: update_data_def Let_def)

lemma update_data_datasets_length:
  "length (datasets (update_data now now_at raw c)) = length (datasets c)"
  by (simp add: update_data_def Let_def)

lemma update_data_series:
  assumes "i < length (datasets c)"
  shows "data (datasets (update_data now now_at raw c) ! i)
     = (if length (labels c) > 100 then shift (data (datasets c ! i)) else data (datasets c ! i))
       @ pushed i (now, now_at, raw)"
  using assms
  by (simp add: update_data_def Let_def pushed_def nth_enumerate_eq split: option.splits)

lemma shift_length: "length (shift xs) = length xs - 1"
  by (cases xs) (simp_all add: shift_def)

lemma shift_suffix: "suffix (shift xs) xs"
  by (cases xs) (simp_all add: shift_def suffix_ConsI)

lemma pushed_length: "length (pushed i m) \<le> 1"
  by (cases m) (simp add: pushed_def split: option.splits)

lemma receive_window_ok:
  assumes "window_ok c"
  shows "window_ok (receive m c)"
proof -
  obtain now now_at raw where m: "m = (now, now_at, raw)" by (cases m) auto
  have lab: "length (labels (update_data now now_at raw c)) \<le> 101"
    using assms unfolding window_ok_def by (auto simp: update_data_labels shift_length)
  have "length (data (datasets (update_data now now_at raw c) ! i))
          \<le> length (labels (update_data now now_at raw c))"
    if i: "i < length (datasets c)" for i
  proof -
    from assms i have le: "length (data (datasets c ! i)) \<le> length (labels c)"
      by (simp add: window_ok_def)
    have p: "length (pushed i (now, now_at, raw)) \<le> 1" by (rule pushed_length)
    from le p show ?thesis
      by (auto simp add: update_data_series [OF i] update_data_labels shift_length)
  qed
  with lab show ?thesis
    by (simp add: window_ok_def receive_def m update_data_datasets_length)
qed

lemma receive_all_window_ok: "window_ok c \<Longrightarrow> window_ok (receive_all ms c)"
  unfolding receive_all_def
  by (induction ms arbitrary: c) (simp_all add: receive_window_ok)

lemma receive_datasets_length: "length (datasets (receive m c)) = length (datasets c)"
  by (cases m) (simp add: receive_def update_data_datasets_length)

lemma receive_all_datasets_length: "length (datasets (receive_all ms c)) = length (datasets c)"
  unfolding receive_all_def
  by (induction ms arbitrary: c) (simp_all add: receive_datasets_length)

lemma receive_all_suffix:
  assumes "i < length (datasets c)"
  shows "suffix (data (datasets (receive_all ms c) ! i))
           (data (datasets c ! i) @ concat (map (pushed i) ms))"
  using assms unfolding receive_all_def
proof (induction ms arbitrary: c)
  case Nil
  then show ?case by simp
next
  case (Cons m ms)
  obtain now now_at raw where m: "m = (now, now_at, raw)" by (cases m) auto
  let ?c' = "receive m c"
  have i': "i < length (datasets ?c')"
    using Cons.prems by (simp add: receive_def m update_data_datasets_length)
  have step: "suffix (data (datasets ?c' ! i)) (data (datasets c ! i) @ pushed i m)"
    using Cons.prems
    by (simp add: receive_def m update_data_series shift_suffix)
  have "suffix (data (datasets (fold receive ms ?c') ! i))
          (data (datasets ?c' ! i) @ concat (map (pushed i) ms))"
    using i' by (rule Cons.IH)
  moreover have "suffix (data (datasets ?c' ! i) @ concat (map (pushed i) ms))
          ((data (datasets c ! i) @ pushed i m) @ concat (map (pushed i) ms))"
    using step by (auto simp: suffix_def)
  ultimately show ?case
    by (auto intro: suffix_order.trans)
qed

lemma createChart_window_ok: "window_ok (createChart n r b)"
  by (auto simp: window_ok_def createChart_def nth_append)

lemma createChart_series_empty:
  "i < length (datasets (createChart n r b)) \<Longrightarrow> data (datasets (createChart n r b) ! i) = []"
  by (auto simp: createChart_def nth_append)

lemma one_series_chart_datasets: "length (datasets one_series_chart) = 1"
  by (simp add: one_series_chart_def createChart_def)

lemma receive_all_snoc: "receive_all (replicate (Suc k) m) c = receive m (receive_all (replicate k m) c)"
proof -
  have "replicate (Suc k) m = replicate k m @ [m]"
    by (simp add: replicate_append_same)
  then show ?thesis
    by (simp add: receive_all_def del: replicate_Suc)
qed

lemma receive_series:
  "i < length (datasets c) \<Longrightarrow>
     data (datasets (receive m c) ! i)
       = (if length (labels c) > 100 then shift (data (datasets c ! i))
          else data (datasets c ! i)) @ pushed i m"
  by (cases m) (simp add: receive_def update_data_series)

lemma receive_labels:
  "labels (receive m c)
     = (if length (labels c) > 100 then shift (labels c) else labels c) @ [fst m]"
  by (cases m) (simp add: receive_def update_data_labels)

lemma filling_up:
  "k \<le> 101 \<Longrightarrow>
     length (labels (receive_all (replicate k tick) one_series_chart)) = k
     \<and> length (data (datasets (receive_all (replicate k tick) one_series_chart) ! 0)) = k"
proof (induction k)
  case 0
  then show ?case
    by (simp add: receive_all_def one_series_chart_def createChart_def)
next
  case (Suc k)
  let ?c = "receive_all (replicate k tick) one_series_chart"
  from Suc have lab: "length (labels ?c) = k" and dat: "length (data (datasets ?c ! 0)) = k"
    and k: "k \<le> 100"
    by simp_all
  have i: "0 < length (datasets ?c)"
    by (simp add: receive_all_datasets_length one_series_chart_datasets)
  have p: "pushed 0 tick = [(0, 7)]"
    by (simp add: pushed_def tick_def)
  have "length (labels (receive tick ?c)) = Suc k"
    using lab k by (simp add: receive_labels)
  moreover have "length (data (datasets (receive tick ?c) ! 0)) = Suc k"
    using lab dat k by (simp add: receive_series [OF i] p)
  ultimately show ?case
    by (simp only: receive_all_snoc)
qed

lemma two_series_chart_datasets: "length (datasets two_series_chart) = 2"
  by (simp add: two_series_chart_def createChart_def eval_nat_numeral)

lemma filling_first_series_only:
  "k \<le> 100 \<Longrightarrow>
     length (labels (receive_all (replicate k tick) two_series_chart)) = k
     \<and> data (datasets (receive_all (replicate k tick) two_series_chart) ! Suc 0) = []"
proof (induction k)
  case 0
  then show ?case
    by (simp add: receive_all_def two_series_chart_def createChart_def eval_nat_numeral)
next
  case (Suc k)
  let ?c = "receive_all (replicate k tick) two_series_chart"
  from Suc have lab: "length (labels ?c) = k" and dat: "data (datasets ?c ! Suc 0) = []"
    and k: "k \<le> 100"
    by simp_all
  have i: "Suc 0 < length (datasets ?c)"
    by (simp add: receive_all_datasets_length two_series_chart_datasets)
  have p: "pushed (Suc 0) tick = []"
    by (simp add: pushed_def tick_def)
  have "length (labels (receive tick ?c)) = Suc k"
    using lab k by (simp add: receive_labels)
  moreover have "data (datasets (receive tick ?c) ! Suc 0) = []"
    using lab dat k by (simp add: receive_series [OF i] p shift_def)
  ultimately show ?case
    by (simp only: receive_all_snoc)
qed

lemma series_window_run:
  fixes ms :: "'v message list"
  assumes i: "i < length (datasets (createChart n r b :: 'v chart))"
  shows "length (data (datasets (receive_all ms (createChart n r b)) ! i)) \<le> 101
     \<and> length (data (datasets (receive_all ms (createChart n r b)) ! i))
         \<le> length (labels (receive_all ms (createChart n r b)))
     \<and> suffix (data (datasets (receive_all ms (createChart n r b)) ! i))
         (concat (map (pushed i) ms))"
proof -
  let ?fresh = "createChart n r b :: 'v chart"
  let ?c = "receive_all ms ?fresh"
  have ok: "window_ok ?c"
    by (rule receive_all_window_ok) (rule createChart_window_ok)
  have i': "i < length (datasets ?c)"
    using i by (simp add: receive_all_datasets_length)
  from ok i' have a: "length (data (datasets ?c ! i)) \<le> length (labels ?c)"
    and b: "length (labels ?c) \<le> 101"
    by (simp_all add: window_ok_def)
  have "suffix (data (datasets ?c ! i)) (data (datasets ?fresh ! i) @ concat (map (pushed i) ms))"
    using i by (rule receive_all_suffix)
  then have c: "suffix (data (datasets ?c ! i)) (concat (map (pushed i) ms))"
    using i by (simp add: createChart_series_empty)
  from a b c show ?thesis
    by simp
qed

text \<open>
  C9 (as amended). After any sequence of messages received by a freshly created chart,
  no series holds more than 101 points, nor more points than there are labels, and its
  content is a suffix of the points pushed to it, in the order of their arrival: the
  points dropped are the oldest ones. Eviction is not per series. On the arrival of a
  message, in any chart, the label array and every series lose their first entry exactly
  when the shared label array holds more than 100 entries, whatever the length of the
  series; then the new label is appended, and to each series the point that the message
  carries for it.
\<close>

theorem series_window:
  fixes ms :: "'v message list" and c :: "'v chart"
  shows "(\<forall>i<length (datasets (createChart n r b :: 'v chart)).
            length (data (datasets (receive_all ms (createChart n r b)) ! i)) \<le> 101
            \<and> length (data (datasets (receive_all ms (createChart n r b)) ! i))
                \<le> length (labels (receive_all ms (createChart n r b)))
            \<and> suffix (data (datasets (receive_all ms (createChart n r b)) ! i))
                (concat (map (pushed i) ms)))
       \<and> labels (receive m c)
           = (if length (labels c) > 100 then shift (labels c) else labels c) @ [fst m]
       \<and> (\<forall>i<length (datasets c).
            data (datasets (receive m c) ! i)
              = (if length (labels c) > 100 then shift (data (datasets c ! i))
                 else data (datasets c ! i)) @ pushed i m)"
proof (intro conjI allI impI)
  fix i :: nat
  assume i: "i < length (datasets (createChart n r b :: 'v chart))"
  note run = series_window_run [OF i, of ms]
  from run show "length (data (datasets (receive_all ms (createChart n r b)) ! i)) \<le> 101"
    by simp
  from run show "length (data (datasets (receive_all ms (createChart n r b)) ! i))
      \<le> length (labels (receive_all ms (createChart n r b)))"
    by simp
  from run show "suffix (data (datasets (receive_all ms (createChart n r b)) ! i))
      (concat (map (pushed i) ms))"
    by simp
next
  show "labels (receive m c)
      = (if length (labels c) > 100 then shift (labels c) else labels c) @ [fst m]"
    by (rule receive_labels)
next
  fix i :: nat
  assume "i < length (datasets c)"
  then show "data (datasets (receive m c) ! i)
      = (if length (labels c) > 100 then shift (data (datasets c ! i))
         else data (datasets c ! i)) @ pushed i m"
    by (rule receive_series)
qed

theorem series_window_witness:
  "(0::nat) < length (datasets (createChart (Some 1) False False :: int chart))
   \<and> length (data (datasets (receive_all [tick, tick] (createChart (Some 1) False False)) ! 0)) \<le> 101
   \<and> suffix (data (datasets (receive_all [tick, tick] (createChart (Some 1) False False)) ! 0))
        [(0, 7), (0, 7)]
   \<and> (0::nat) < length (datasets (receive_all (replicate 101 tick) one_series_chart))
   \<and> length (labels (receive_all (replicate 101 tick) one_series_chart)) = 101
   \<and> data (datasets (receive tick (receive_all (replicate 101 tick) one_series_chart)) ! 0)
       = shift (data (datasets (receive_all (replicate 101 tick) one_series_chart) ! 0))
         @ [(0, 7)]"
proof -
  let ?full = "receive_all (replicate 101 tick) one_series_chart"
  have a: "(0::nat) < length (datasets (createChart (Some 1) False False :: int chart))"
    by (simp add: createChart_def)
  have p: "concat (map (pushed 0) [tick, tick]) = [(0, 7), (0, 7)]"
    by (simp add: pushed_def tick_def)
  have q: "pushed 0 tick = [(0, 7)]"
    by (simp add: pushed_def tick_def)
  have i: "(0::nat) < length (datasets ?full)"
    by (simp add: receive_all_datasets_length one_series_chart_datasets)
  have l: "length (labels ?full) = 101"
    using filling_up [of 101] by simp
  note th = series_window [where n = "Some 1" and r = False and b = False
      and ms = "[tick, tick]" and m = tick and c = ?full]
  from a th
  have 1: "length (data (datasets (receive_all [tick, tick] (createChart (Some 1) False False)) ! 0))
          \<le> 101
      \<and> suffix (data (datasets (receive_all [tick, tick] (createChart (Some 1) False False)) ! 0))
          (concat (map (pushed 0) [tick, tick]))"
    by blast
  from i th
  have "data (datasets (receive tick ?full) ! 0)
      = (if length (labels ?full) > 100 then shift (data (datasets ?full ! 0))
         else data (datasets ?full ! 0)) @ pushed 0 tick"
    by blast
  with l q have 2: "data (datasets (receive tick ?full) ! 0)
      = shift (data (datasets ?full ! 0)) @ [(0, 7)]"
    by simp
  from a p i l 1 2 show ?thesis
    by simp
qed

text \<open>
  C9 as stated fails. After 101 messages the series of a one-series chart holds 101
  points. And eviction is not independent per series: in a chart of two series, after
  100 messages that carry a value for the first series only and two messages that carry
  values for both, the second series has been pushed two points, never held more than
  one, and has lost the older of the two because the label array had reached 101 entries.
\<close>

theorem series_window_counterexample:
  "length (data (datasets (receive_all (replicate 101 tick) one_series_chart) ! 0)) = 101
   \<and> concat (map (pushed 1) (replicate 100 tick @ [tick_a, tick_b])) = [(1, 8), (2, 8)]
   \<and> data (datasets (receive_all (replicate 100 tick @ [tick_a]) two_series_chart) ! 1)
       = [(1, 8)]
   \<and> data (datasets (receive_all (replicate 100 tick @ [tick_a, tick_b]) two_series_chart) ! 1)
       = [(2, 8)]"
proof -
  let ?c = "receive_all (replicate 100 tick) two_series_chart"
  have one: "length (data (datasets (receive_all (replicate 101 tick) one_series_chart) ! 0)) = 101"
    using filling_up [of 101] by simp
  have pt: "pushed (Suc 0) tick = []" and pa: "pushed (Suc 0) tick_a = [(1, 8)]"
    and pb: "pushed (Suc 0) tick_b = [(2, 8)]"
    by (simp_all add: pushed_def tick_def tick_a_def tick_b_def)
  have "concat (map (pushed 1) (replicate 100 tick)) = []"
    by (simp add: pt)
  then have pushed_all: "concat (map (pushed 1) (replicate 100 tick @ [tick_a, tick_b]))
      = [(1, 8), (2, 8)]"
    by (simp add: pa pb)
  from filling_first_series_only [of 100]
  have lab: "length (labels ?c) = 100" and dat: "data (datasets ?c ! Suc 0) = []"
    by simp_all
  have i: "Suc 0 < length (datasets ?c)"
    by (simp add: receive_all_datasets_length two_series_chart_datasets)
  have la: "length (labels (receive tick_a ?c)) = 101"
    using lab by (simp add: receive_labels)
  have da: "data (datasets (receive tick_a ?c) ! Suc 0) = [(1, 8)]"
    using lab dat by (simp add: receive_series [OF i] pa)
  have ia: "Suc 0 < length (datasets (receive tick_a ?c))"
    using i by (simp add: receive_datasets_length)
  have db: "data (datasets (receive tick_b (receive tick_a ?c)) ! Suc 0) = [(2, 8)]"
    using la da by (simp add: receive_series [OF ia] pb shift_def)
  have sa: "receive_all (replicate 100 tick @ [tick_a]) two_series_chart = receive tick_a ?c"
    by (simp add: receive_all_def)
  have sb: "receive_all (replicate 100 tick @ [tick_a, tick_b]) two_series_chart
      = receive tick_b (receive tick_a ?c)"
    by (simp add: receive_all_def)
  from one pushed_all da db show ?thesis
    unfolding sa sb by simp
qed

end
